theory Spec2Isabelle
  imports Complex_Main "HOL-Library.AList"
begin

section \<open>Data model of the multi-destination log-file writer\<close>

text \<open>
  The development embeds \<^verbatim>\<open>jr_py_writer/handler_file.py\<close> (class \<^verbatim>\<open>FileHandler\<close>)
  and the batching helpers of \<^verbatim>\<open>jr_py_writer/utils/utilities.py\<close>.

  Conventions of the embedding.
  \<^item> A Python \<^verbatim>\<open>str\<close> is a list of Unicode code points (\<open>pystr\<close>). Its length is what
    \<^verbatim>\<open>len\<close> and \<^verbatim>\<open>StringIO.tell\<close> count; \<open>utf8_len\<close> is what
    \<^verbatim>\<open>len(s.encode("utf-8"))\<close> and \<^verbatim>\<open>st_size\<close> count. Code points are taken to be
    Unicode scalar values, so encoding never fails.
  \<^item> Arguments are modelled at their annotated types, so the \<^verbatim>\<open>isinstance\<close> guards of the
    setters are discharged by typing; the range checks remain.
  \<^item> \<^verbatim>\<open>float\<close> settings (\<^verbatim>\<open>retry_delay\<close>, \<^verbatim>\<open>backoff_factor\<close>) are idealised as reals.
  \<^item> Every method is a function from the state to a result and the new state; a raised
    exception is \<open>Inl\<close> of an \<open>error\<close>, which records the chain of causes (\<^verbatim>\<open>raise ... from e\<close>).
  \<^item> The state record holds the attributes of the handler and, after them, the part of the
    environment the handler acts on: the file system (by path), a fault oracle for the
    operations on open files, the calls of \<^verbatim>\<open>time.sleep\<close>, the CPU count and the number of
    times the memory-pressure monitor was entered.
  \<^item> Work submitted to the thread pool is run in submission order.
\<close>

type_synonym pystr = "nat list"

definition of_ascii :: "string \<Rightarrow> pystr" where
  "of_ascii s = map of_char s"

definition utf8_width :: "nat \<Rightarrow> nat" where
  "utf8_width c = (if c < 0x80 then 1 else if c < 0x800 then 2 else if c < 0x10000 then 3 else 4)"

definition utf8_len :: "pystr \<Rightarrow> nat" where
  "utf8_len s = sum_list (map utf8_width s)"

text \<open>The code points for which \<^verbatim>\<open>str.isspace\<close> holds; \<^verbatim>\<open>str.strip()\<close> removes them at both ends.\<close>

definition is_space :: "nat \<Rightarrow> bool" where
  "is_space c = ((9 \<le> c \<and> c \<le> 13) \<or> (28 \<le> c \<and> c \<le> 32) \<or> c = 0x85 \<or> c = 0xA0 \<or> c = 0x1680
     \<or> (0x2000 \<le> c \<and> c \<le> 0x200A) \<or> c = 0x2028 \<or> c = 0x2029 \<or> c = 0x202F \<or> c = 0x205F
     \<or> c = 0x3000)"

definition py_strip :: "pystr \<Rightarrow> pystr" where
  "py_strip s = rev (dropWhile is_space (rev (dropWhile is_space s)))"

datatype LogWriteMode = APPEND | OVERWRITE | READ | READ_WRITE | WRITE_READ

datatype path = Path (parent: string) (name: string)

datatype error =
    ValueError
  | TypeError
  | AttributeError
  | IOError
  | OSError
  | FileNotFoundError
  | KeyError
  | RuntimeError_shutdown
  | RuntimeError_not_open path
  | RuntimeError_closed path
  | RuntimeError_write path nat error
  | RuntimeError_batch "path list" error
  | RuntimeError_flush path error
  | FileHandlerSettingsError error
  | FileHandlerSyncPoolInitError error
  | FileHandlerSyncPoolCleanupError error
  | FileHandlerWriteError error
  | FileHandlerAsyncWriteError error
  | FileHandleRotateError error
  | FileHandlerConfigError error
  | FileHandlerBufferError error
  | FileHandlerFlushError error
  | FileHandlerShutdownError error
  | FileHandlerResumeError error
  | FileHandlerResetError error

text \<open>
  An open text file (\<^verbatim>\<open>TextIOWrapper\<close>): whether it is closed, whether it was opened in
  append mode, the position of the next write otherwise, and the text written but not yet
  flushed to the file system.
\<close>

record file_obj =
  fo_closed :: bool
  fo_append :: bool
  fo_pos :: nat
  fo_pending :: pystr

record state =
  file_paths :: "path list"
  write_mode :: LogWriteMode
  retry_limit :: nat
  retry_delay :: real
  backoff_factor :: real
  max_file_size :: nat
  max_rotation :: nat
  max_buffer_size :: nat
  use_write_flush :: bool
  logger :: "nat option"
  temp_sync_pool :: "(path \<times> file_obj) list"
  threadpool_shutdown :: bool
  buffer :: "pystr option"
  fs :: "path \<rightharpoonup> pystr"
  io_ops :: "path \<Rightarrow> nat"
  io_fails :: "path \<Rightarrow> nat \<Rightarrow> bool"
  sleeps :: "real list"
  cpu_count :: nat
  gc_entered :: nat

type_synonym 'a res = "(error + 'a) \<times> state"


section \<open>Exceptions as results\<close>

text \<open>Sequencing that stops at the first exception, and \<^verbatim>\<open>except Exception as e: raise E(...) from e\<close>.\<close>

definition and_then :: "'a res \<Rightarrow> ('a \<Rightarrow> state \<Rightarrow> 'b res) \<Rightarrow> 'b res" where
  "and_then r k = (case r of (Inl e, s) \<Rightarrow> (Inl e, s) | (Inr x, s) \<Rightarrow> k x s)"

definition reraise :: "(error \<Rightarrow> error) \<Rightarrow> 'a res \<Rightarrow> 'a res" where
  "reraise E r = (case r of (Inl e, s) \<Rightarrow> (Inl (E e), s) | (Inr x, s) \<Rightarrow> (Inr x, s))"

text \<open>The same, for a step that is still waiting for its state.\<close>

definition and_then' :: "(state \<Rightarrow> 'a res) \<Rightarrow> ('a \<Rightarrow> state \<Rightarrow> 'b res) \<Rightarrow> state \<Rightarrow> 'b res" where
  "and_then' f k s = and_then (f s) k"

section \<open>Paths and the file system\<close>

text \<open>\<^verbatim>\<open>str(i)\<close> for a natural number: its decimal digits.\<close>

function str_nat :: "nat \<Rightarrow> string" where
  "str_nat n = (if n < 10 then [char_of (48 + n)] else str_nat (n div 10) @ [char_of (48 + n mod 10)])"
  by pat_completeness auto
termination
  by (relation "measure id") auto

declare str_nat.simps [simp del]

text \<open>
  \<^verbatim>\<open>Path.stem\<close> and \<^verbatim>\<open>Path.suffix\<close>: the name is split at its last dot, unless that dot
  is the first or the last character of the name.
\<close>

definition rfind_dot :: "string \<Rightarrow> nat option" where
  "rfind_dot n =
     (if CHR ''.'' \<in> set n
      then Some (length n - 1 - length (takeWhile (\<lambda>c. c \<noteq> CHR ''.'') (rev n)))
      else None)"

definition suffix :: "path \<Rightarrow> string" where
  "suffix p =
     (case rfind_dot (name p) of
        None \<Rightarrow> []
      | Some i \<Rightarrow> if 0 < i \<and> i < length (name p) - 1 then drop i (name p) else [])"

definition stem :: "path \<Rightarrow> string" where
  "stem p =
     (case rfind_dot (name p) of
        None \<Rightarrow> name p
      | Some i \<Rightarrow> if 0 < i \<and> i < length (name p) - 1 then take i (name p) else name p)"

definition with_name :: "path \<Rightarrow> string \<Rightarrow> path" where
  "with_name p n = Path (parent p) n"

text \<open>The rotated sibling \<^verbatim>\<open>path.with_name(f"{path.stem}_{i}{path.suffix}")\<close>.\<close>

definition rotated :: "path \<Rightarrow> nat \<Rightarrow> path" where
  "rotated p i = with_name p (stem p @ ''_'' @ str_nat i @ suffix p)"

definition path_exists :: "state \<Rightarrow> path \<Rightarrow> bool" where
  "path_exists s p = (fs s p \<noteq> None)"

definition unlink :: "state \<Rightarrow> path \<Rightarrow> unit res" where
  "unlink s p =
     (if fs s p = None then (Inl FileNotFoundError, s)
      else (Inr (), s\<lparr>fs := (fs s)(p := None)\<rparr>))"

definition rename :: "state \<Rightarrow> path \<Rightarrow> path \<Rightarrow> unit res" where
  "rename s src dst =
     (case fs s src of
        None \<Rightarrow> (Inl FileNotFoundError, s)
      | Some c \<Rightarrow> (Inr (), s\<lparr>fs := ((fs s)(src := None))(dst \<mapsto> c)\<rparr>))"

definition touch :: "state \<Rightarrow> path \<Rightarrow> unit res" where
  "touch s p = (if fs s p = None then (Inr (), s\<lparr>fs := (fs s)(p \<mapsto> [])\<rparr>) else (Inr (), s))"

definition write_text :: "state \<Rightarrow> path \<Rightarrow> pystr \<Rightarrow> unit res" where
  "write_text s p t = (Inr (), s\<lparr>fs := (fs s)(p \<mapsto> t)\<rparr>)"

text \<open>\<^verbatim>\<open>_create_file\<close>: an empty file is created where none exists.\<close>

definition create_file :: "state \<Rightarrow> path \<Rightarrow> state" where
  "create_file s p = (if \<not> path_exists s p then s\<lparr>fs := (fs s)(p \<mapsto> [])\<rparr> else s)"

section \<open>Open files and the slot pool\<close>

definition pool_get :: "state \<Rightarrow> path \<Rightarrow> file_obj option" where
  "pool_get s p = map_of (temp_sync_pool s) p"

definition pool_put :: "state \<Rightarrow> path \<Rightarrow> file_obj \<Rightarrow> state" where
  "pool_put s p f = s\<lparr>temp_sync_pool := AList.update p f (temp_sync_pool s)\<rparr>"

definition pool_del :: "state \<Rightarrow> path \<Rightarrow> state" where
  "pool_del s p = s\<lparr>temp_sync_pool := AList.delete p (temp_sync_pool s)\<rparr>"

text \<open>The keys of the pool, as \<^verbatim>\<open>list(self._temp_sync_pool.keys())\<close> gives them.\<close>

definition pool_keys :: "state \<Rightarrow> path list" where
  "pool_keys s = remdups (map fst (temp_sync_pool s))"

text \<open>
  \<^verbatim>\<open>open(path, mode)\<close>: the modes \<^verbatim>\<open>w\<close> and \<^verbatim>\<open>w+\<close> truncate, \<^verbatim>\<open>a\<close> creates a missing file,
  \<^verbatim>\<open>r\<close> and \<^verbatim>\<open>r+\<close> need the file to exist.
\<close>

definition open_file :: "state \<Rightarrow> path \<Rightarrow> file_obj res" where
  "open_file s p =
     (let f = \<lparr>fo_closed = False, fo_append = (write_mode s = APPEND), fo_pos = 0, fo_pending = []\<rparr> in
      case write_mode s of
        APPEND \<Rightarrow> (Inr f, create_file s p)
      | OVERWRITE \<Rightarrow> (Inr f, s\<lparr>fs := (fs s)(p \<mapsto> [])\<rparr>)
      | WRITE_READ \<Rightarrow> (Inr f, s\<lparr>fs := (fs s)(p \<mapsto> [])\<rparr>)
      | READ \<Rightarrow> (if path_exists s p then (Inr f, s) else (Inl FileNotFoundError, s))
      | READ_WRITE \<Rightarrow> (if path_exists s p then (Inr f, s) else (Inl FileNotFoundError, s)))"

definition writable :: "LogWriteMode \<Rightarrow> bool" where
  "writable m = (m \<noteq> READ)"

text \<open>
  One operation on an open file consults the fault oracle: operation number \<open>io_ops s p\<close>
  on the files of \<open>p\<close> fails iff \<open>io_fails s p\<close> says so.
\<close>

definition io_step :: "state \<Rightarrow> path \<Rightarrow> bool \<times> state" where
  "io_step s p = (io_fails s p (io_ops s p), s\<lparr>io_ops := (io_ops s)(p := io_ops s p + 1)\<rparr>)"

text \<open>The pending text of a file reaches the file system.\<close>

definition commit :: "state \<Rightarrow> path \<Rightarrow> file_obj \<Rightarrow> state" where
  "commit s p f =
     (let c = (case fs s p of None \<Rightarrow> [] | Some c \<Rightarrow> c);
          c' = (if fo_append f then c @ fo_pending f
                else take (fo_pos f) c @ fo_pending f @ drop (fo_pos f + length (fo_pending f)) c)
      in pool_put (s\<lparr>fs := (fs s)(p \<mapsto> c')\<rparr>) p
           (f\<lparr>fo_pos := fo_pos f + length (fo_pending f), fo_pending := []\<rparr>))"

text \<open>\<^verbatim>\<open>file.write\<close>, \<^verbatim>\<open>file.flush\<close> and \<^verbatim>\<open>file.close\<close> on the pool's file of a path.\<close>

definition file_write :: "state \<Rightarrow> path \<Rightarrow> pystr \<Rightarrow> unit res" where
  "file_write s p d =
     (case pool_get s p of
        None \<Rightarrow> (Inl AttributeError, s)
      | Some f \<Rightarrow>
          if fo_closed f then (Inl ValueError, s)
          else (case io_step s p of
                  (True, s1) \<Rightarrow> (Inl OSError, s1)
                | (False, s1) \<Rightarrow> (Inr (), pool_put s1 p (f\<lparr>fo_pending := fo_pending f @ d\<rparr>))))"

definition file_flush :: "state \<Rightarrow> path \<Rightarrow> unit res" where
  "file_flush s p =
     (case pool_get s p of
        None \<Rightarrow> (Inl AttributeError, s)
      | Some f \<Rightarrow>
          if fo_closed f then (Inl ValueError, s)
          else (case io_step s p of
                  (True, s1) \<Rightarrow> (Inl OSError, s1)
                | (False, s1) \<Rightarrow> (Inr (), commit s1 p f)))"

definition file_close :: "state \<Rightarrow> path \<Rightarrow> unit res" where
  "file_close s p =
     (case pool_get s p of
        None \<Rightarrow> (Inl AttributeError, s)
      | Some f \<Rightarrow>
          if fo_closed f then (Inr (), s)
          else (case io_step s p of
                  (True, s1) \<Rightarrow> (Inl OSError, pool_put s1 p (f\<lparr>fo_closed := True\<rparr>))
                | (False, s1) \<Rightarrow>
                    (let s2 = commit s1 p f in
                     case pool_get s2 p of
                       None \<Rightarrow> (Inr (), s2)
                     | Some f' \<Rightarrow> (Inr (), pool_put s2 p (f'\<lparr>fo_closed := True\<rparr>)))))"

section \<open>The write buffer\<close>

text \<open>\<^verbatim>\<open>get_buffer_size\<close>: the position of the buffer's stream, 0 without a buffer.\<close>

definition get_buffer_size :: "state \<Rightarrow> nat" where
  "get_buffer_size s = (case buffer s of None \<Rightarrow> 0 | Some b \<Rightarrow> length b)"

text \<open>
  \<^verbatim>\<open>_get_buffer_message\<close>: the stripped content of the buffer; the buffer is truncated and
  rewound.
\<close>

definition get_buffer_message :: "state \<Rightarrow> pystr res" where
  "get_buffer_message s =
     (case buffer s of
        None \<Rightarrow> (Inl AttributeError, s)
      | Some b \<Rightarrow> (Inr (py_strip b), s\<lparr>buffer := Some []\<rparr>))"

text \<open>
  \<^verbatim>\<open>_write_to_buffer\<close>: the overflow test adds the stream position and the encoded length of
  the message (the newline that is appended is not counted).
\<close>

definition write_to_buffer :: "state \<Rightarrow> pystr \<Rightarrow> pystr option res" where
  "write_to_buffer s message =
     (if buffer s = None \<and> \<not> max_buffer_size s > 0 then (Inr None, s)
      else
        let s1 = (if buffer s = None then s\<lparr>buffer := Some []\<rparr> else s) in
        if get_buffer_size s1 + utf8_len message > max_buffer_size s1 then
          (case get_buffer_message s1 of
             (Inl e, s2) \<Rightarrow> (Inl e, s2)
           | (Inr m, s2) \<Rightarrow> (Inr (Some m), s2))
        else
          (case buffer s1 of
             None \<Rightarrow> (Inl AttributeError, s1)
           | Some b \<Rightarrow> (Inr None, s1\<lparr>buffer := Some (b @ message @ [10])\<rparr>)))"

section \<open>Rotation\<close>

text \<open>
  \<^verbatim>\<open>_check_file_size\<close>: the file exists and its size plus the encoded length of the message
  exceeds \<^verbatim>\<open>max_file_size\<close>. Any exception inside gives \<^verbatim>\<open>False\<close>.
\<close>

definition check_file_size :: "state \<Rightarrow> pystr \<Rightarrow> path \<Rightarrow> bool" where
  "check_file_size s message p =
     (case fs s p of
        None \<Rightarrow> False
      | Some c \<Rightarrow> utf8_len c + utf8_len message > max_file_size s)"

text \<open>
  The loop \<^verbatim>\<open>for i in range(self.max_rotation - 1, 0, -1)\<close> of \<^verbatim>\<open>_rotate_file\<close>;
  \<open>rotate_chain s p k\<close> runs it for \<open>i = k, ..., 1\<close>.
\<close>

fun rotate_chain :: "state \<Rightarrow> path \<Rightarrow> nat \<Rightarrow> unit res" where
  "rotate_chain s p 0 = (Inr (), s)"
| "rotate_chain s p (Suc i) =
     (let rotated_file = rotated p (Suc i);
          next_rotated_file = rotated p (Suc i + 1)
      in if path_exists s rotated_file then
           and_then
             (if path_exists s next_rotated_file then unlink s next_rotated_file else (Inr (), s))
             (\<lambda>_ s1. and_then (rename s1 rotated_file next_rotated_file)
                (\<lambda>_ s2. rotate_chain s2 p i))
         else rotate_chain s p i)"

text \<open>
  The body of \<^verbatim>\<open>_rotate_file\<close> under the lock: the open file of the path is closed and
  removed from the pool, then the files are renamed.
\<close>

definition evict_slot :: "state \<Rightarrow> path \<Rightarrow> unit res" where
  "evict_slot s p =
     (case pool_get s p of
        None \<Rightarrow> (Inr (), s)
      | Some f \<Rightarrow>
          and_then (if \<not> fo_closed f then file_close s p else (Inr (), s))
            (\<lambda>_ s1. (Inr (), pool_del s1 p)))"

definition rotate_locked :: "state \<Rightarrow> path \<Rightarrow> unit res" where
  "rotate_locked s p =
     and_then (evict_slot s p)
       (\<lambda>_ s1.
          if max_rotation s1 = 0 then write_text s1 p []
          else
            and_then (rotate_chain s1 p (max_rotation s1 - 1))
              (\<lambda>_ s2.
                 let first_rotated_file = rotated p 1 in
                 and_then
                   (if path_exists s2 first_rotated_file then unlink s2 first_rotated_file
                    else (Inr (), s2))
                   (\<lambda>_ s3. and_then (rename s3 p first_rotated_file)
                      (\<lambda>_ s4. touch s4 p))))"

definition rotate_file :: "state \<Rightarrow> pystr \<Rightarrow> path \<Rightarrow> unit res" where
  "rotate_file s message p =
     reraise FileHandleRotateError
       (if \<not> check_file_size s message p then (Inr (), s) else rotate_locked s p)"

section \<open>Writing one file, with retry\<close>

text \<open>
  The body of the \<^verbatim>\<open>try\<close> of one attempt: the write and, with \<^verbatim>\<open>use_write_flush\<close>, the flush.
\<close>

definition write_attempt :: "state \<Rightarrow> path \<Rightarrow> pystr \<Rightarrow> unit res" where
  "write_attempt s p message =
     (if pool_get s p = None then (Inl (RuntimeError_not_open p), s)
      else and_then (file_write s p (message @ [10]))
             (\<lambda>_ s1. if use_write_flush s1 then file_flush s1 p else (Inr (), s1)))"

text \<open>The wait before the next attempt; \<open>counter\<close> is the number of failed attempts so far.\<close>

definition backoff_sleep :: "state \<Rightarrow> nat \<Rightarrow> state" where
  "backoff_sleep s counter =
     (if retry_delay s > 0 then
        (if backoff_factor s \<noteq> 0
         then s\<lparr>sleeps := sleeps s @ [retry_delay s * backoff_factor s ^ (counter - 1)]\<rparr>
         else s\<lparr>sleeps := sleeps s @ [retry_delay s]\<rparr>)
      else s)"

text \<open>
  The loop \<^verbatim>\<open>for _ in range(self.retry_limit)\<close>; the first argument is the number of
  iterations left, \<open>counter\<close> the local variable of the source.
\<close>

fun write_retry :: "nat \<Rightarrow> nat \<Rightarrow> state \<Rightarrow> path \<Rightarrow> pystr \<Rightarrow> unit res" where
  "write_retry 0 counter s p message = (Inr (), s)"
| "write_retry (Suc n) counter s p message =
     (case write_attempt s p message of
        (Inr u, s1) \<Rightarrow> (Inr (), s1)
      | (Inl e, s1) \<Rightarrow>
          (let counter1 = counter + 1 in
           if counter1 \<ge> retry_limit s1 then (Inl (RuntimeError_write p (retry_limit s1) e), s1)
           else write_retry n counter1 (backoff_sleep s1 counter1) p message))"

text \<open>The branch without retry (\<^verbatim>\<open>retry_limit == 0\<close>).\<close>

definition write_direct :: "state \<Rightarrow> path \<Rightarrow> pystr \<Rightarrow> unit res" where
  "write_direct s p message =
     (case pool_get s p of
        None \<Rightarrow> (Inl (RuntimeError_not_open p), s)
      | Some f \<Rightarrow>
          if fo_closed f then (Inl (RuntimeError_closed p), s)
          else and_then (file_write s p (message @ [10]))
                 (\<lambda>_ s1. if use_write_flush s1 then file_flush s1 p else (Inr (), s1)))"

definition write_to_file :: "state \<Rightarrow> path \<Rightarrow> pystr \<Rightarrow> unit res" where
  "write_to_file s p message =
     and_then
       (if check_file_size s message p then
          and_then (rotate_file s message p)
            (\<lambda>_ s1. if pool_get s1 p \<noteq> None
                     then and_then (file_close s1 p) (\<lambda>_ s2. (Inr (), pool_del s2 p))
                     else (Inr (), s1))
        else (Inr (), s))
       (\<lambda>_ s1.
          and_then
            (if pool_get s1 p = None then
               (let s2 = create_file s1 p in
                and_then (open_file s2 p)
                  (\<lambda>f s3. if \<not> writable (write_mode s3) then (Inl IOError, s3)
                           else (Inr (), pool_put s3 p f)))
             else (Inr (), s1))
            (\<lambda>_ s2.
               if retry_limit s2 > 0 then write_retry (retry_limit s2) 0 s2 p message
               else write_direct s2 p message))"

text \<open>\<^verbatim>\<open>_log_batch\<close>, and the direct loop of \<^verbatim>\<open>_writer_handler\<close>: one path after the other.\<close>

fun log_batch :: "state \<Rightarrow> pystr \<Rightarrow> path list \<Rightarrow> unit res" where
  "log_batch s message [] = (Inr (), s)"
| "log_batch s message (p # ps) =
     and_then (write_to_file s p message) (\<lambda>_ s1. log_batch s1 message ps)"

section \<open>The slot pool\<close>

fun init_paths :: "state \<Rightarrow> path list \<Rightarrow> unit res" where
  "init_paths s [] = (Inr (), s)"
| "init_paths s (p # ps) =
     (if pool_get s p \<noteq> None then init_paths s ps
      else
        (let s1 = create_file s p in
         and_then (open_file s1 p)
           (\<lambda>f s2. if \<not> writable (write_mode s2) then (Inl IOError, s2)
                    else init_paths (pool_put s2 p f) ps)))"

definition init_sync_pool :: "state \<Rightarrow> unit res" where
  "init_sync_pool s =
     reraise FileHandlerSyncPoolInitError
       (if file_paths s = [] then (Inr (), s) else init_paths s (file_paths s))"

definition ensure_sync_pool :: "state \<Rightarrow> unit res" where
  "ensure_sync_pool s = (if temp_sync_pool s = [] then init_sync_pool s else (Inr (), s))"

text \<open>
  The loop of \<^verbatim>\<open>clear_sync_pool\<close> over the keys: a failure to flush or close is logged and
  the path is popped all the same; a key that is no longer in the pool raises \<^verbatim>\<open>KeyError\<close>.
\<close>

fun close_paths :: "state \<Rightarrow> path list \<Rightarrow> unit res" where
  "close_paths s [] = (Inr (), s)"
| "close_paths s (p # ps) =
     (case pool_get s p of
        None \<Rightarrow> (Inl KeyError, s)
      | Some f \<Rightarrow>
          (let s1 = (if \<not> fo_closed f
                     then snd (and_then (file_flush s p) (\<lambda>_ s1. file_close s1 p))
                     else s)
           in close_paths (pool_del s1 p) ps))"

definition clear_sync_pool :: "state \<Rightarrow> unit res" where
  "clear_sync_pool s =
     reraise FileHandlerSyncPoolCleanupError
       (if temp_sync_pool s = [] then (Inr (), s)
        else and_then (close_paths s (pool_keys s))
               (\<lambda>_ s1. (Inr (), s1\<lparr>temp_sync_pool := []\<rparr>)))"

text \<open>The loop of \<^verbatim>\<open>writer_force_flush\<close> over the items of the pool.\<close>

fun flush_paths :: "state \<Rightarrow> path list \<Rightarrow> unit res" where
  "flush_paths s [] = (Inr (), s)"
| "flush_paths s (p # ps) =
     (case pool_get s p of
        None \<Rightarrow> flush_paths s ps
      | Some f \<Rightarrow>
          and_then
            (reraise (RuntimeError_flush p) (if \<not> fo_closed f then file_flush s p else (Inr (), s)))
            (\<lambda>_ s1. flush_paths s1 ps))"

definition writer_force_flush :: "state \<Rightarrow> unit res" where
  "writer_force_flush s =
     reraise FileHandlerFlushError
       (if temp_sync_pool s = [] then (Inr (), s) else flush_paths s (pool_keys s))"

section \<open>Batching (\<^verbatim>\<open>utilities.py\<close>)\<close>

text \<open>
  \<^verbatim>\<open>_calculate_batch_size\<close>; \<open>cpu\<close> is \<^verbatim>\<open>os.cpu_count()\<close>, 0 standing for \<^verbatim>\<open>None\<close>.
\<close>

definition calculate_batch_size :: "nat \<Rightarrow> nat \<Rightarrow> int \<Rightarrow> nat" where
  "calculate_batch_size cpu data_len batch_size =
     (let bs = (if batch_size \<le> 0 then max (if cpu = 0 then 1 else cpu) 1 else nat batch_size) in
      if bs \<ge> data_len then data_len
      else if data_len < 1000 then max bs 1
      else if data_len \<le> 10000 then max (bs * 2) (data_len div 4)
      else if data_len \<le> 100000 then max (bs * 4) (data_len div 8)
      else if data_len \<le> 1000000 then max (bs * 8) (data_len div 16)
      else if data_len \<le> 10000000 then max (bs * 16) (data_len div 32)
      else max (bs * 32) (data_len div 64))"

text \<open>The loop \<^verbatim>\<open>batch = list(islice(iter_data, batch_size))\<close> until a batch is empty.\<close>

function chop :: "nat \<Rightarrow> 'a list \<Rightarrow> 'a list list" where
  "chop n xs = (if n = 0 \<or> xs = [] then [] else take n xs # chop n (drop n xs))"
  by pat_completeness auto
termination
  by (relation "measure (\<lambda>(n, xs). length xs)") auto

declare chop.simps [simp del]

definition batcher :: "nat \<Rightarrow> 'a list \<Rightarrow> int \<Rightarrow> error + 'a list list" where
  "batcher cpu data batch_size =
     (if length data = 0 then Inl ValueError
      else
        let bs = (if batch_size \<le> 0 then calculate_batch_size cpu (length data) batch_size
                  else nat batch_size)
        in if bs \<ge> length data then Inr [data] else Inr (chop bs data))"

text \<open>
  \<^verbatim>\<open>batcher_with_gcmanager\<close> with its default thresholds: as \<open>batcher\<close>, with the chopping
  loop inside \<^verbatim>\<open>with GCManager(...)\<close>.
\<close>

definition batcher_with_gcmanager :: "state \<Rightarrow> 'a list \<Rightarrow> int \<Rightarrow> 'a list list res" where
  "batcher_with_gcmanager s data batch_size =
     (if length data = 0 then (Inl ValueError, s)
      else
        let bs = (if batch_size \<le> 0 then calculate_batch_size (cpu_count s) (length data) batch_size
                  else nat batch_size)
        in if bs \<ge> length data then (Inr [data], s)
           else (Inr (chop bs data), s\<lparr>gc_entered := gc_entered s + 1\<rparr>))"

section \<open>Fan-out\<close>

text \<open>
  The thread pool. \<^verbatim>\<open>submit\<close> on a pool that was shut down raises; the submitted batches
  all run, and the first failure is raised when the results are collected.
\<close>

fun run_batches :: "state \<Rightarrow> pystr \<Rightarrow> path list list \<Rightarrow> (path list \<times> error) list \<times> state" where
  "run_batches s message [] = ([], s)"
| "run_batches s message (b # bs) =
     (case log_batch s message b of
        (Inl e, s1) \<Rightarrow> (case run_batches s1 message bs of (fl, s2) \<Rightarrow> ((b, e) # fl, s2))
      | (Inr u, s1) \<Rightarrow> run_batches s1 message bs)"

definition submit_batches :: "state \<Rightarrow> pystr \<Rightarrow> path list list \<Rightarrow> unit res" where
  "submit_batches s message batches =
     (if batches \<noteq> [] \<and> threadpool_shutdown s then (Inl RuntimeError_shutdown, s)
      else
        (case run_batches s message batches of
           ([], s1) \<Rightarrow> (Inr (), s1)
         | ((b, e) # fl, s1) \<Rightarrow> (Inl (RuntimeError_batch b e), s1)))"

text \<open>\<^verbatim>\<open>_writer_handler\<close>, with the order of its tests.\<close>

definition writer_handler :: "state \<Rightarrow> pystr \<Rightarrow> unit res" where
  "writer_handler s message =
     (if length (file_paths s) > 50 then
        (case batcher (cpu_count s) (file_paths s) (- 1) of
           Inl e \<Rightarrow> (Inl e, s)
         | Inr batches_of_paths \<Rightarrow> submit_batches s message batches_of_paths)
      else if length (file_paths s) > 1000 then
        and_then (batcher_with_gcmanager s (file_paths s) (- 1))
          (\<lambda>batches_of_paths s1. submit_batches s1 message batches_of_paths)
      else log_batch s message (file_paths s))"

text \<open>\<^verbatim>\<open>loop.run_in_executor(self._threadpool, work)\<close>, awaited.\<close>

definition run_in_executor :: "state \<Rightarrow> (state \<Rightarrow> unit res) \<Rightarrow> unit res" where
  "run_in_executor s work = (if threadpool_shutdown s then (Inl RuntimeError_shutdown, s) else work s)"

definition async_writer :: "state \<Rightarrow> pystr \<Rightarrow> unit res" where
  "async_writer s message = run_in_executor s (\<lambda>s1. log_batch s1 message (file_paths s1))"

fun async_batches :: "state \<Rightarrow> pystr \<Rightarrow> path list list \<Rightarrow> unit res" where
  "async_batches s message [] = (Inr (), s)"
| "async_batches s message (b # bs) =
     and_then (run_in_executor s (\<lambda>s1. log_batch s1 message b))
       (\<lambda>_ s1. async_batches s1 message bs)"

definition async_writer_handler :: "state \<Rightarrow> pystr \<Rightarrow> unit res" where
  "async_writer_handler s message =
     (if length (file_paths s) > 50 then
        (case batcher (cpu_count s) (file_paths s) (- 1) of
           Inl e \<Rightarrow> (Inl e, s)
         | Inr batches_of_paths \<Rightarrow> async_batches s message batches_of_paths)
      else if length (file_paths s) > 1000 then
        and_then (batcher_with_gcmanager s (file_paths s) (- 1))
          (\<lambda>batches_of_paths s1. async_batches s1 message batches_of_paths)
      else async_writer s message)"

section \<open>The facade\<close>

definition log :: "state \<Rightarrow> pystr \<Rightarrow> unit res" where
  "log s message =
     reraise FileHandlerWriteError
       (if py_strip message = [] then (Inl ValueError, s)
        else if file_paths s = [] then (Inr (), s)
        else
          and_then (ensure_sync_pool s)
            (\<lambda>_ s1.
               if max_buffer_size s1 > 0 then
                 and_then (write_to_buffer s1 message)
                   (\<lambda>buffer_message s2.
                      case buffer_message of
                        None \<Rightarrow> (Inr (), s2)
                      | Some m \<Rightarrow> if m \<noteq> [] then writer_handler s2 m else (Inr (), s2))
               else writer_handler s1 message))"

definition async_log :: "state \<Rightarrow> pystr \<Rightarrow> unit res" where
  "async_log s message =
     reraise FileHandlerAsyncWriteError
       (if py_strip message = [] then (Inl ValueError, s)
        else if file_paths s = [] then (Inr (), s)
        else
          and_then (init_sync_pool s)
            (\<lambda>_ s1.
               if max_buffer_size s1 > 0 then
                 and_then (write_to_buffer s1 message)
                   (\<lambda>buffer_message s2.
                      case buffer_message of
                        None \<Rightarrow> (Inr (), s2)
                      | Some m \<Rightarrow> if m \<noteq> [] then async_writer_handler s2 m else (Inr (), s2))
               else async_writer_handler s1 message))"

definition buffer_force_flush :: "state \<Rightarrow> unit res" where
  "buffer_force_flush s =
     reraise FileHandlerBufferError
       (case buffer s of
          None \<Rightarrow> (Inr (), s)
        | Some b \<Rightarrow>
            and_then
              (if length b > 0 then
                 and_then (get_buffer_message s)
                   (\<lambda>buffer_message s1.
                      if buffer_message \<noteq> [] then writer_handler s1 buffer_message else (Inr (), s1))
               else (Inr (), s))
              (\<lambda>_ s1. writer_force_flush s1))"

definition force_shutdown :: "state \<Rightarrow> unit res" where
  "force_shutdown s =
     (if \<not> threadpool_shutdown s then (Inr (), s\<lparr>threadpool_shutdown := True\<rparr>) else (Inr (), s))"

definition resume_pool :: "state \<Rightarrow> unit res" where
  "resume_pool s = (Inr (), s\<lparr>threadpool_shutdown := False\<rparr>)"

text \<open>The last step of every teardown: the pool is shut down unless it already is.\<close>

definition shutdown_threadpool :: "state \<Rightarrow> state" where
  "shutdown_threadpool s = (if \<not> threadpool_shutdown s then s\<lparr>threadpool_shutdown := True\<rparr> else s)"

definition clear_all :: "state \<Rightarrow> unit res" where
  "clear_all s =
     and_then (if buffer s \<noteq> None then buffer_force_flush s else (Inr (), s))
       (\<lambda>_ s1. and_then (clear_sync_pool s1)
          (\<lambda>_ s2. (Inr (), shutdown_threadpool (s2\<lparr>file_paths := []\<rparr>))))"

text \<open>\<^verbatim>\<open>__exit__\<close>, \<^verbatim>\<open>__aexit__\<close> and \<^verbatim>\<open>__del__\<close>.\<close>

definition dunder_exit :: "state \<Rightarrow> unit res" where
  "dunder_exit s =
     and_then (if buffer s \<noteq> None then buffer_force_flush s else (Inr (), s))
       (\<lambda>_ s1. and_then (clear_sync_pool (s1\<lparr>file_paths := []\<rparr>))
          (\<lambda>_ s2. (Inr (), shutdown_threadpool s2)))"

definition dunder_aexit :: "state \<Rightarrow> unit res" where
  "dunder_aexit s =
     and_then (if buffer s \<noteq> None then buffer_force_flush s else (Inr (), s))
       (\<lambda>_ s1. (Inr (), shutdown_threadpool (s1\<lparr>file_paths := []\<rparr>)))"


section \<open>Settings\<close>

text \<open>
  The setters. Each validates its argument and raises \<^verbatim>\<open>FileHandlerSettingsError\<close> from the
  \<^verbatim>\<open>ValueError\<close> otherwise. The file system of the model holds regular files only, so no
  path names a directory.
\<close>

definition set_file_paths :: "state \<Rightarrow> path list \<Rightarrow> unit res" where
  "set_file_paths s paths =
     reraise FileHandlerSettingsError
       (if paths = [] then (Inl ValueError, s)
        else if list_ex (\<lambda>p. length (name p) > 255) paths then (Inl ValueError, s)
        else (Inr (), s\<lparr>file_paths := paths\<rparr>))"

definition set_write_mode :: "state \<Rightarrow> LogWriteMode \<Rightarrow> unit res" where
  "set_write_mode s mode = (Inr (), s\<lparr>write_mode := mode\<rparr>)"

definition set_retry_limit :: "state \<Rightarrow> int \<Rightarrow> unit res" where
  "set_retry_limit s limit =
     reraise FileHandlerSettingsError
       (if limit < 0 then (Inl ValueError, s) else (Inr (), s\<lparr>retry_limit := nat limit\<rparr>))"

definition set_retry_delay :: "state \<Rightarrow> real \<Rightarrow> unit res" where
  "set_retry_delay s delay =
     reraise FileHandlerSettingsError
       (if delay < 0 then (Inl ValueError, s) else (Inr (), s\<lparr>retry_delay := delay\<rparr>))"

definition set_backoff_factor :: "state \<Rightarrow> real \<Rightarrow> unit res" where
  "set_backoff_factor s factor =
     reraise FileHandlerSettingsError
       (if factor < 0 then (Inl ValueError, s) else (Inr (), s\<lparr>backoff_factor := factor\<rparr>))"

definition set_max_file_size :: "state \<Rightarrow> int \<Rightarrow> unit res" where
  "set_max_file_size s sz =
     reraise FileHandlerSettingsError
       (if sz < 0 then (Inl ValueError, s) else (Inr (), s\<lparr>max_file_size := nat sz\<rparr>))"

definition set_max_rotation :: "state \<Rightarrow> int \<Rightarrow> unit res" where
  "set_max_rotation s rotation =
     reraise FileHandlerSettingsError
       (if rotation < 0 then (Inl ValueError, s) else (Inr (), s\<lparr>max_rotation := nat rotation\<rparr>))"

definition set_max_buffer_size :: "state \<Rightarrow> int \<Rightarrow> unit res" where
  "set_max_buffer_size s sz =
     reraise FileHandlerSettingsError
       (if sz < 0 then (Inl ValueError, s) else (Inr (), s\<lparr>max_buffer_size := nat sz\<rparr>))"

definition set_use_write_flush :: "state \<Rightarrow> bool \<Rightarrow> unit res" where
  "set_use_write_flush s use_flush = (Inr (), s\<lparr>use_write_flush := use_flush\<rparr>)"

definition set_logger :: "state \<Rightarrow> nat \<Rightarrow> unit res" where
  "set_logger s l = (Inr (), s\<lparr>logger := Some l\<rparr>)"

text \<open>
  An argument of a call of \<^verbatim>\<open>config\<close>: left out, passed as \<^verbatim>\<open>None\<close>, or passed with a
  value. A parameter that is left out is bound to the default of the signature.
\<close>

datatype 'a arg = Omitted | Null | Given 'a

definition bind_arg :: "'a \<Rightarrow> 'a arg \<Rightarrow> 'a option" where
  "bind_arg dflt a = (case a of Omitted \<Rightarrow> Some dflt | Null \<Rightarrow> None | Given v \<Rightarrow> Some v)"

record config_args =
  arg_file_paths :: "path list arg"
  arg_write_mode :: "LogWriteMode arg"
  arg_retry_limit :: "int arg"
  arg_retry_delay :: "real arg"
  arg_backoff_factor :: "real arg"
  arg_max_file_size :: "int arg"
  arg_max_rotation :: "int arg"
  arg_max_buffer_size :: "int arg"
  arg_use_write_flush :: "bool arg"
  arg_logger :: "nat arg"

text \<open>\<^verbatim>\<open>if value is not None: self.field = value\<close>.\<close>

definition apply_setting :: "(state \<Rightarrow> 'a \<Rightarrow> unit res) \<Rightarrow> 'a option \<Rightarrow> state \<Rightarrow> unit res" where
  "apply_setting setter v s = (case v of None \<Rightarrow> (Inr (), s) | Some x \<Rightarrow> setter s x)"

text \<open>
  \<^verbatim>\<open>config\<close>: \<^verbatim>\<open>file_paths\<close> has no default, so a call without it is a \<^verbatim>\<open>TypeError\<close> of the
  call itself; the other parameters default to the values of the signature, and
  \<^verbatim>\<open>logger\<close> to \<^verbatim>\<open>None\<close>.
\<close>

definition config :: "state \<Rightarrow> config_args \<Rightarrow> unit res" where
  "config s a =
     (case arg_file_paths a of
        Omitted \<Rightarrow> (Inl TypeError, s)
      | _ \<Rightarrow>
        reraise FileHandlerConfigError
          (and_then (apply_setting set_file_paths (bind_arg [] (arg_file_paths a)) s)
          (\<lambda>_. and_then' (apply_setting set_write_mode (bind_arg APPEND (arg_write_mode a)))
          (\<lambda>_. and_then' (apply_setting set_retry_limit (bind_arg 3 (arg_retry_limit a)))
          (\<lambda>_. and_then' (apply_setting set_retry_delay (bind_arg 0.5 (arg_retry_delay a)))
          (\<lambda>_. and_then' (apply_setting set_backoff_factor (bind_arg 0.2 (arg_backoff_factor a)))
          (\<lambda>_. and_then' (apply_setting set_max_file_size (bind_arg (10 * 1024 * 1024) (arg_max_file_size a)))
          (\<lambda>_. and_then' (apply_setting set_max_rotation (bind_arg 5 (arg_max_rotation a)))
          (\<lambda>_. and_then' (apply_setting set_max_buffer_size (bind_arg (1024 * 1024) (arg_max_buffer_size a)))
          (\<lambda>_. and_then' (apply_setting set_use_write_flush (bind_arg True (arg_use_write_flush a)))
          (\<lambda>_. apply_setting set_logger (case arg_logger a of Given l \<Rightarrow> Some l | _ \<Rightarrow> None))))))))))))"

text \<open>\<^verbatim>\<open>config_dict\<close>: the keys of the dictionary are the keyword arguments of \<^verbatim>\<open>config\<close>.\<close>

definition config_dict :: "state \<Rightarrow> config_args \<Rightarrow> unit res" where
  "config_dict s a = config s a"

definition reset :: "state \<Rightarrow> path list \<Rightarrow> unit res" where
  "reset s paths =
     reraise FileHandlerResetError
       (and_then (set_file_paths s paths)
       (\<lambda>_. and_then' (\<lambda>s. set_write_mode s APPEND)
       (\<lambda>_. and_then' (\<lambda>s. set_retry_limit s 3)
       (\<lambda>_. and_then' (\<lambda>s. set_retry_delay s 0.5)
       (\<lambda>_. and_then' (\<lambda>s. set_backoff_factor s 0.2)
       (\<lambda>_. and_then' (\<lambda>s. set_max_file_size s (10 * 1024 * 1024))
       (\<lambda>_. and_then' (\<lambda>s. set_max_rotation s 2)
       (\<lambda>_. and_then' (\<lambda>s. set_max_buffer_size s (1024 * 1024))
       (\<lambda>_ s. set_use_write_flush s True)))))))))"

section \<open>Observations used to state the properties\<close>

text \<open>
  The handler that \<^verbatim>\<open>FileHandler(file_paths=paths)\<close> builds with the defaults of the
  constructor, on an empty file system without faults and a machine with four CPUs.
\<close>

definition default_handler :: "path list \<Rightarrow> state" where
  "default_handler paths =
     \<lparr>file_paths = paths, write_mode = APPEND, retry_limit = 2, retry_delay = 0.1,
      backoff_factor = 0.2, max_file_size = 10 * 1024 * 1024, max_rotation = 5,
      max_buffer_size = 1024 * 1024, use_write_flush = True, logger = None,
      temp_sync_pool = [], threadpool_shutdown = False, buffer = Some [],
      fs = Map.empty, io_ops = (\<lambda>_. 0), io_fails = (\<lambda>_ _. False), sleeps = [],
      cpu_count = 4, gc_entered = 0\<rparr>"




text \<open>
  The frame of file I/O: the state without its slot pool, the file system, the count of
  operations on open files and the record of sleeps. What is left are the configuration
  fields, the logger, the buffer, the state of the thread pool, and the parameters of the
  environment. \<open>opened_only s s'\<close>: from \<open>s\<close> to \<open>s'\<close> nothing happened but the opening
  of files: the frame and the count of operations on open files are the same, nothing
  slept, and every file has its old content or is empty (created or truncated by
  \<^verbatim>\<open>open\<close>).
\<close>

definition io_frame :: "state \<Rightarrow> state" where
  "io_frame s = s\<lparr>temp_sync_pool := [], fs := Map.empty, io_ops := (\<lambda>_. 0), sleeps := []\<rparr>"

definition same_frame :: "state \<Rightarrow> state \<Rightarrow> bool" where
  "same_frame s s' = (io_frame s' = io_frame s)"

definition opened_only :: "state \<Rightarrow> state \<Rightarrow> bool" where
  "opened_only s s' =
     (same_frame s s' \<and> io_ops s' = io_ops s \<and> sleeps s' = sleeps s
      \<and> (\<forall>q. fs s' q = fs s q \<or> fs s' q = Some []))"

text \<open>A list of \<open>n\<close> different paths, and the default handler after the eager opening of its pool.\<close>

definition many_paths :: "nat \<Rightarrow> path list" where
  "many_paths n = map (\<lambda>i. Path ''logs'' (str_nat i @ ''.log'')) [0..<n]"

definition opened_handler :: state where
  "opened_handler = snd (init_sync_pool (default_handler [Path ''logs'' ''app.log'']))"

text \<open>
  A path, and a handler whose slot is open and whose every operation on an open file fails,
  with the retry settings of the scenario of the specification.
\<close>

definition app_log :: path where
  "app_log = Path ''logs'' ''app.log''"




text \<open>The two ways a call delivers a message to the writer: unbuffered, or by draining.\<close>

definition delivers :: "state \<Rightarrow> pystr \<Rightarrow> bool" where
  "delivers s m =
     (max_buffer_size s = 0
      \<or> (\<exists>b. buffer s = Some b \<and> get_buffer_size s + utf8_len m > max_buffer_size s
             \<and> py_strip b \<noteq> []))"

text \<open>
  The handler with its slot open and no buffer, and a handler with 51 paths, no buffer and
  its worker pool shut down.
\<close>

definition unbuffered_handler :: state where
  "unbuffered_handler = opened_handler\<lparr>max_buffer_size := 0\<rparr>"

definition stopped_handler :: state where
  "stopped_handler = (default_handler (many_paths 51))\<lparr>max_buffer_size := 0, threadpool_shutdown := True\<rparr>"

text \<open>
  The value of a field after an optional assignment; the handler of the test fixture
  (no retry); a call of \<^verbatim>\<open>config\<close> that passes the paths alone, and one that passes
  \<^verbatim>\<open>None\<close> for everything but the retry delay.
\<close>

definition new_value :: "'a \<Rightarrow> 'a option \<Rightarrow> 'a" where
  "new_value old v = (case v of None \<Rightarrow> old | Some x \<Rightarrow> x)"

definition fixture_handler :: state where
  "fixture_handler = (default_handler [app_log])\<lparr>retry_limit := 0, retry_delay := 0, backoff_factor := 0\<rparr>"

definition only_paths :: config_args where
  "only_paths = \<lparr>arg_file_paths = Given [Path ''logs'' ''other.log''], arg_write_mode = Omitted,
     arg_retry_limit = Omitted, arg_retry_delay = Omitted, arg_backoff_factor = Omitted,
     arg_max_file_size = Omitted, arg_max_rotation = Omitted, arg_max_buffer_size = Omitted,
     arg_use_write_flush = Omitted, arg_logger = Omitted\<rparr>"

definition delay_only :: config_args where
  "delay_only = \<lparr>arg_file_paths = Null, arg_write_mode = Null,
     arg_retry_limit = Null, arg_retry_delay = Given 1.5, arg_backoff_factor = Null,
     arg_max_file_size = Null, arg_max_rotation = Null, arg_max_buffer_size = Null,
     arg_use_write_flush = Null, arg_logger = Omitted\<rparr>"

(*DEFS*)

section \<open>Properties\<close>


subsection \<open>The buffer and the opening of the pool\<close>

lemma write_to_buffer_drain:
  assumes "buffer s = Some b" "length b + utf8_len m > max_buffer_size s"
  shows "write_to_buffer s m = (Inr (Some (py_strip b)), s\<lparr>buffer := Some []\<rparr>)"
  using assms by (simp add: write_to_buffer_def get_buffer_size_def get_buffer_message_def)

lemma write_to_buffer_append:
  assumes "buffer s = Some b" "length b + utf8_len m \<le> max_buffer_size s"
  shows "write_to_buffer s m = (Inr None, s\<lparr>buffer := Some (b @ m @ [10])\<rparr>)"
  using assms by (simp add: write_to_buffer_def get_buffer_size_def get_buffer_message_def)


lemma same_frame_fields:
  assumes "same_frame s s'"
  shows "file_paths s' = file_paths s" "write_mode s' = write_mode s"
    "retry_limit s' = retry_limit s" "retry_delay s' = retry_delay s"
    "backoff_factor s' = backoff_factor s" "max_file_size s' = max_file_size s"
    "max_rotation s' = max_rotation s" "max_buffer_size s' = max_buffer_size s"
    "use_write_flush s' = use_write_flush s" "logger s' = logger s"
    "threadpool_shutdown s' = threadpool_shutdown s" "io_fails s' = io_fails s"
    "cpu_count s' = cpu_count s" "gc_entered s' = gc_entered s" "buffer s' = buffer s"
proof -
  from assms have e: "io_frame s' = io_frame s" by (simp add: same_frame_def)
  show "file_paths s' = file_paths s"
    using arg_cong [OF e, of file_paths] by (simp add: io_frame_def)
  show "write_mode s' = write_mode s"
    using arg_cong [OF e, of write_mode] by (simp add: io_frame_def)
  show "retry_limit s' = retry_limit s"
    using arg_cong [OF e, of retry_limit] by (simp add: io_frame_def)
  show "retry_delay s' = retry_delay s"
    using arg_cong [OF e, of retry_delay] by (simp add: io_frame_def)
  show "backoff_factor s' = backoff_factor s"
    using arg_cong [OF e, of backoff_factor] by (simp add: io_frame_def)
  show "max_file_size s' = max_file_size s"
    using arg_cong [OF e, of max_file_size] by (simp add: io_frame_def)
  show "max_rotation s' = max_rotation s"
    using arg_cong [OF e, of max_rotation] by (simp add: io_frame_def)
  show "max_buffer_size s' = max_buffer_size s"
    using arg_cong [OF e, of max_buffer_size] by (simp add: io_frame_def)
  show "use_write_flush s' = use_write_flush s"
    using arg_cong [OF e, of use_write_flush] by (simp add: io_frame_def)
  show "logger s' = logger s"
    using arg_cong [OF e, of logger] by (simp add: io_frame_def)
  show "threadpool_shutdown s' = threadpool_shutdown s"
    using arg_cong [OF e, of threadpool_shutdown] by (simp add: io_frame_def)
  show "io_fails s' = io_fails s"
    using arg_cong [OF e, of io_fails] by (simp add: io_frame_def)
  show "cpu_count s' = cpu_count s"
    using arg_cong [OF e, of cpu_count] by (simp add: io_frame_def)
  show "gc_entered s' = gc_entered s"
    using arg_cong [OF e, of gc_entered] by (simp add: io_frame_def)
  show "buffer s' = buffer s"
    using arg_cong [OF e, of buffer] by (simp add: io_frame_def)
qed

lemma opened_only_refl: "opened_only s s"
  by (simp add: opened_only_def same_frame_def)

lemma opened_only_trans: "opened_only s s1 \<Longrightarrow> opened_only s1 s2 \<Longrightarrow> opened_only s s2"
  unfolding opened_only_def same_frame_def by metis

lemma create_file_opened: "opened_only s (create_file s p)"
  by (simp add: opened_only_def same_frame_def io_frame_def create_file_def)

lemma open_file_opened: "open_file s p = (r, s') \<Longrightarrow> opened_only s s'"
  by (cases "write_mode s")
    (auto simp: open_file_def opened_only_def same_frame_def io_frame_def create_file_def Let_def
      split: if_splits)

lemma pool_put_opened: "opened_only s (pool_put s p f)"
  by (simp add: opened_only_def same_frame_def io_frame_def pool_put_def)

lemma init_paths_opened: "init_paths s ps = (r, s') \<Longrightarrow> opened_only s s'"
proof (induction ps arbitrary: s)
  case Nil
  then show ?case by (simp add: opened_only_refl)
next
  case (Cons p ps)
  show ?case
  proof (cases "pool_get s p \<noteq> None")
    case True
    with Cons show ?thesis by simp
  next
    case False
    obtain r1 s1 where o: "open_file (create_file s p) p = (r1, s1)" by fastforce
    have a: "opened_only s s1"
      using opened_only_trans [OF create_file_opened open_file_opened [OF o]] .
    show ?thesis
    proof (cases r1)
      case (Inl e)
      with False o Cons.prems a show ?thesis by (simp add: and_then_def Let_def)
    next
      case (Inr f)
      show ?thesis
      proof (cases "writable (write_mode s1)")
        case True
        with False o Inr Cons.prems have "init_paths (pool_put s1 p f) ps = (r, s')"
          by (simp add: and_then_def Let_def)
        from Cons.IH [OF this] have "opened_only (pool_put s1 p f) s'" .
        with a pool_put_opened show ?thesis by (blast intro: opened_only_trans)
      next
        case False
        with \<open>\<not> pool_get s p \<noteq> None\<close> o Inr Cons.prems a show ?thesis by (simp add: and_then_def Let_def)
      qed
    qed
  qed
qed

lemma ensure_sync_pool_opened: "ensure_sync_pool s = (r, s') \<Longrightarrow> opened_only s s'"
  by (auto simp: ensure_sync_pool_def init_sync_pool_def reraise_def opened_only_refl
      split: if_splits prod.splits sum.splits dest: init_paths_opened)

lemma init_sync_pool_opened: "init_sync_pool s = (r, s') \<Longrightarrow> opened_only s s'"
  by (auto simp: init_sync_pool_def reraise_def opened_only_refl
      split: if_splits prod.splits sum.splits dest: init_paths_opened)

lemma buffer_update_same: "buffer s = Some b \<Longrightarrow> s\<lparr>buffer := Some b\<rparr> = s"
  by simp


subsection \<open>What writing to files leaves alone\<close>

lemma and_then_frame:
  assumes "and_then f k = (r, s')"
    and "\<And>r1 s1. f = (r1, s1) \<Longrightarrow> io_frame s1 = io_frame s"
    and "\<And>x s1 r2 s2. k x s1 = (r2, s2) \<Longrightarrow> io_frame s2 = io_frame s1"
  shows "io_frame s' = io_frame s"
proof -
  obtain r1 s1 where f: "f = (r1, s1)" by (cases f)
  show ?thesis
  proof (cases r1)
    case (Inl e)
    with f assms(1) have "s' = s1" by (simp add: and_then_def)
    with assms(2) [OF f] show ?thesis by simp
  next
    case (Inr x)
    with f assms(1) have "k x s1 = (r, s')" by (simp add: and_then_def)
    from assms(3) [OF this] assms(2) [OF f] show ?thesis by simp
  qed
qed

lemma reraise_frame:
  "reraise E f = (r, s') \<Longrightarrow> (\<And>r1 s1. f = (r1, s1) \<Longrightarrow> io_frame s1 = io_frame s) \<Longrightarrow> io_frame s' = io_frame s"
  by (cases f) (auto simp: reraise_def split: sum.splits)

lemma pool_put_frame [simp]: "io_frame (pool_put s p f) = io_frame s"
  by (simp add: io_frame_def pool_put_def)

lemma pool_del_frame [simp]: "io_frame (pool_del s p) = io_frame s"
  by (simp add: io_frame_def pool_del_def)

lemma commit_frame [simp]: "io_frame (commit s p f) = io_frame s"
  by (simp add: commit_def Let_def io_frame_def pool_put_def)

lemma create_file_frame [simp]: "io_frame (create_file s p) = io_frame s"
  by (simp add: create_file_def io_frame_def)

lemma file_write_frame: "file_write s p d = (r, s') \<Longrightarrow> io_frame s' = io_frame s"
  by (auto simp: file_write_def io_step_def io_frame_def pool_put_def
      split: option.splits if_splits bool.splits)

lemma file_flush_frame: "file_flush s p = (r, s') \<Longrightarrow> io_frame s' = io_frame s"
  by (auto simp: file_flush_def io_step_def commit_def Let_def io_frame_def pool_put_def
      split: option.splits if_splits bool.splits)

lemma file_close_frame: "file_close s p = (r, s') \<Longrightarrow> io_frame s' = io_frame s"
  by (auto simp: file_close_def io_step_def commit_def Let_def io_frame_def
      pool_put_def pool_get_def split: option.splits if_splits bool.splits)

lemma unlink_frame: "unlink s p = (r, s') \<Longrightarrow> io_frame s' = io_frame s"
  by (auto simp: unlink_def io_frame_def split: if_splits)

lemma rename_frame: "rename s p q = (r, s') \<Longrightarrow> io_frame s' = io_frame s"
  by (auto simp: rename_def io_frame_def split: option.splits)

lemma touch_frame: "touch s p = (r, s') \<Longrightarrow> io_frame s' = io_frame s"
  by (auto simp: touch_def io_frame_def split: if_splits)

lemma write_text_frame: "write_text s p t = (r, s') \<Longrightarrow> io_frame s' = io_frame s"
  by (auto simp: write_text_def io_frame_def)

lemma open_file_frame: "open_file s p = (r, s') \<Longrightarrow> io_frame s' = io_frame s"
  by (cases "write_mode s")
    (auto simp: open_file_def create_file_def Let_def io_frame_def split: if_splits)

lemma open_created_frame:
  "open_file (create_file s p) p = (r, s') \<Longrightarrow> io_frame s' = io_frame s"
  by (drule open_file_frame) simp

lemma rotate_chain_frame: "rotate_chain s p i = (r, s') \<Longrightarrow> io_frame s' = io_frame s"
proof (induction i arbitrary: s r s')
  case 0
  then show ?case by simp
next
  case (Suc i)
  show ?case
  proof (cases "path_exists s (rotated p (Suc i))")
    case False
    with Suc.prems have "rotate_chain s p i = (r, s')" by (simp add: Let_def)
    from Suc.IH [OF this] show ?thesis .
  next
    case True
    obtain r1 s1 where u:
      "(if path_exists s (rotated p (Suc (Suc i))) then unlink s (rotated p (Suc (Suc i)))
        else (Inr (), s)) = (r1, s1)"
      by fastforce
    then have s1: "io_frame s1 = io_frame s"
      by (auto split: if_splits dest: unlink_frame)
    obtain r2 s2 where m: "rename s1 (rotated p (Suc i)) (rotated p (Suc (Suc i))) = (r2, s2)"
      by fastforce
    then have s2: "io_frame s2 = io_frame s1" by (rule rename_frame)
    show ?thesis
    proof (cases r1)
      case (Inl e)
      with True u Suc.prems have "s' = s1" by (simp add: Let_def and_then_def)
      with s1 show ?thesis by simp
    next
      case r1: (Inr x)
      show ?thesis
      proof (cases r2)
        case (Inl e)
        with True u r1 m Suc.prems have "s' = s2" by (simp add: Let_def and_then_def)
        with s1 s2 show ?thesis by simp
      next
        case (Inr y)
        with True u r1 m Suc.prems have "rotate_chain s2 p i = (r, s')"
          by (simp add: Let_def and_then_def)
        from Suc.IH [OF this] s1 s2 show ?thesis by simp
      qed
    qed
  qed
qed

lemma evict_slot_frame: "evict_slot s p = (r, s') \<Longrightarrow> io_frame s' = io_frame s"
  unfolding evict_slot_def
  by (auto split: if_splits option.splits elim!: and_then_frame intro: file_close_frame)

lemma rotate_locked_frame: "rotate_locked s p = (r, s') \<Longrightarrow> io_frame s' = io_frame s"
  unfolding rotate_locked_def
  by (elim and_then_frame)
    (auto simp: Let_def split: if_splits elim!: and_then_frame
      intro: unlink_frame rename_frame evict_slot_frame rotate_chain_frame
        touch_frame write_text_frame)

lemma rotate_file_frame: "rotate_file s m p = (r, s') \<Longrightarrow> io_frame s' = io_frame s"
  unfolding rotate_file_def
  by (elim reraise_frame) (auto split: if_splits intro: rotate_locked_frame)

lemma write_attempt_frame: "write_attempt s p m = (r, s') \<Longrightarrow> io_frame s' = io_frame s"
  unfolding write_attempt_def
  by (auto split: if_splits elim!: and_then_frame intro: file_write_frame file_flush_frame)

lemma backoff_sleep_frame [simp]: "io_frame (backoff_sleep s c) = io_frame s"
  by (simp add: backoff_sleep_def io_frame_def)

lemma write_retry_frame: "write_retry n c s p m = (r, s') \<Longrightarrow> io_frame s' = io_frame s"
proof (induction n arbitrary: c s r s')
  case 0
  then show ?case by simp
next
  case (Suc n)
  obtain r1 s1 where a: "write_attempt s p m = (r1, s1)" by fastforce
  then have s1: "io_frame s1 = io_frame s" by (rule write_attempt_frame)
  show ?case
  proof (cases r1)
    case (Inr u)
    with a Suc.prems have "s' = s1" by simp
    with s1 show ?thesis by simp
  next
    case (Inl e)
    show ?thesis
    proof (cases "c + 1 \<ge> retry_limit s1")
      case True
      with a Inl Suc.prems have "s' = s1" by (simp add: Let_def)
      with s1 show ?thesis by simp
    next
      case False
      with a Inl Suc.prems
      have "write_retry n (c + 1) (backoff_sleep s1 (c + 1)) p m = (r, s')"
        by (simp add: Let_def)
      from Suc.IH [OF this] s1 show ?thesis by simp
    qed
  qed
qed

lemma write_direct_frame: "write_direct s p m = (r, s') \<Longrightarrow> io_frame s' = io_frame s"
  unfolding write_direct_def
  by (auto split: if_splits option.splits elim!: and_then_frame
      intro: file_write_frame file_flush_frame)

lemma write_to_file_frame: "write_to_file s p m = (r, s') \<Longrightarrow> io_frame s' = io_frame s"
  unfolding write_to_file_def
  by (elim and_then_frame)
    (auto simp: Let_def split: if_splits elim!: and_then_frame
      intro: rotate_file_frame file_close_frame open_created_frame write_retry_frame
        write_direct_frame)

lemma log_batch_frame: "log_batch s m ps = (r, s') \<Longrightarrow> io_frame s' = io_frame s"
proof (induction ps arbitrary: s r s')
  case Nil
  then show ?case by simp
next
  case (Cons p ps)
  obtain r1 s1 where a: "write_to_file s p m = (r1, s1)" by fastforce
  then have s1: "io_frame s1 = io_frame s" by (rule write_to_file_frame)
  show ?case
  proof (cases r1)
    case (Inl e)
    with a Cons.prems have "s' = s1" by (simp add: and_then_def)
    with s1 show ?thesis by simp
  next
    case (Inr u)
    with a Cons.prems have "log_batch s1 m ps = (r, s')" by (simp add: and_then_def)
    from Cons.IH [OF this] s1 show ?thesis by simp
  qed
qed

lemma run_batches_frame: "run_batches s m bs = (fl, s') \<Longrightarrow> io_frame s' = io_frame s"
proof (induction bs arbitrary: s fl s')
  case Nil
  then show ?case by simp
next
  case (Cons b bs)
  obtain r1 s1 where a: "log_batch s m b = (r1, s1)" by fastforce
  then have s1: "io_frame s1 = io_frame s" by (rule log_batch_frame)
  obtain fl2 s2 where c: "run_batches s1 m bs = (fl2, s2)" by fastforce
  from Cons.IH [OF c] s1 have "io_frame s2 = io_frame s" by simp
  moreover from a c Cons.prems have "s' = s2" by (cases r1) auto
  ultimately show ?case by simp
qed

lemma submit_batches_frame: "submit_batches s m bs = (r, s') \<Longrightarrow> io_frame s' = io_frame s"
  unfolding submit_batches_def
  by (cases "run_batches s m bs")
    (auto split: if_splits list.splits intro: run_batches_frame)

lemma async_batches_frame: "async_batches s m bs = (r, s') \<Longrightarrow> io_frame s' = io_frame s"
proof (induction bs arbitrary: s r s')
  case Nil
  then show ?case by simp
next
  case (Cons b bs)
  obtain r1 s1 where a: "run_in_executor s (\<lambda>s1. log_batch s1 m b) = (r1, s1)" by fastforce
  then have s1: "io_frame s1 = io_frame s"
    by (auto simp: run_in_executor_def split: if_splits dest: log_batch_frame)
  show ?case
  proof (cases r1)
    case (Inl e)
    with a Cons.prems have "s' = s1" by (simp add: and_then_def)
    with s1 show ?thesis by simp
  next
    case (Inr u)
    with a Cons.prems have "async_batches s1 m bs = (r, s')" by (simp add: and_then_def)
    from Cons.IH [OF this] s1 show ?thesis by simp
  qed
qed

lemma writer_handler_frame: "writer_handler s m = (r, s') \<Longrightarrow> io_frame s' = io_frame s"
  unfolding writer_handler_def
  by (auto split: if_splits sum.splits intro: submit_batches_frame log_batch_frame)

lemma async_writer_handler_frame: "async_writer_handler s m = (r, s') \<Longrightarrow> io_frame s' = io_frame s"
  unfolding async_writer_handler_def async_writer_def run_in_executor_def
  by (auto split: if_splits sum.splits intro: async_batches_frame log_batch_frame)

subsection \<open>C1: an offer that overflows the buffer\<close>





subsection \<open>C9: the ceiling of the buffer\<close>




lemma frame_gc: "io_frame s' = io_frame s \<Longrightarrow> gc_entered s' = gc_entered s"
  using same_frame_fields(14) [of s s'] by (simp add: same_frame_def)

lemma frame_paths: "io_frame s' = io_frame s \<Longrightarrow> file_paths s' = file_paths s"
  using same_frame_fields(1) [of s s'] by (simp add: same_frame_def)



subsection \<open>C2: the tiers of the dispatch\<close>

text \<open>
  Claim C2: above 1000 paths the dispatch chunks with the memory-pressure throttle
  (\<^verbatim>\<open>batcher_with_gcmanager\<close>). The notes of \<^verbatim>\<open>_writer_handler\<close> and of
  \<^verbatim>\<open>_async_writer_handler\<close> say the same, but both test \<^verbatim>\<open>len > 50\<close> before
  \<^verbatim>\<open>len > 1000\<close>, so the second branch is never taken. What the source does for more than
  1000 paths: both handlers chunk with the plain \<^verbatim>\<open>batcher\<close> and the monitor is never
  entered, whereas \<^verbatim>\<open>batcher_with_gcmanager\<close> on the same paths enters it once whenever the
  paths are chopped into more than one batch.
\<close>

theorem writer_handler_never_throttles:
  assumes "length (file_paths s) > 1000"
  shows "writer_handler s m =
           (case batcher (cpu_count s) (file_paths s) (- 1) of
              Inl e \<Rightarrow> (Inl e, s)
            | Inr batches_of_paths \<Rightarrow> submit_batches s m batches_of_paths)
    \<and> async_writer_handler s m =
           (case batcher (cpu_count s) (file_paths s) (- 1) of
              Inl e \<Rightarrow> (Inl e, s)
            | Inr batches_of_paths \<Rightarrow> async_batches s m batches_of_paths)
    \<and> gc_entered (snd (writer_handler s m)) = gc_entered s
    \<and> gc_entered (snd (async_writer_handler s m)) = gc_entered s
    \<and> (calculate_batch_size (cpu_count s) (length (file_paths s)) (- 1) < length (file_paths s)
         \<longrightarrow> gc_entered (snd (batcher_with_gcmanager s (file_paths s) (- 1))) = gc_entered s + 1)"
proof (intro conjI impI)
  from assms show "writer_handler s m =
           (case batcher (cpu_count s) (file_paths s) (- 1) of
              Inl e \<Rightarrow> (Inl e, s)
            | Inr batches_of_paths \<Rightarrow> submit_batches s m batches_of_paths)"
    by (simp add: writer_handler_def)
  from assms show "async_writer_handler s m =
           (case batcher (cpu_count s) (file_paths s) (- 1) of
              Inl e \<Rightarrow> (Inl e, s)
            | Inr batches_of_paths \<Rightarrow> async_batches s m batches_of_paths)"
    by (simp add: async_writer_handler_def)
  show "gc_entered (snd (writer_handler s m)) = gc_entered s"
    by (rule frame_gc, rule writer_handler_frame [of s m "fst (writer_handler s m)"]) simp
  show "gc_entered (snd (async_writer_handler s m)) = gc_entered s"
    by (rule frame_gc, rule async_writer_handler_frame [of s m "fst (async_writer_handler s m)"]) simp
  show "gc_entered (snd (batcher_with_gcmanager s (file_paths s) (- 1))) = gc_entered s + 1"
    if "calculate_batch_size (cpu_count s) (length (file_paths s)) (- 1) < length (file_paths s)"
    using that assms by (auto simp: batcher_with_gcmanager_def Let_def)
qed

theorem writer_handler_never_throttles_witness:
  "length (file_paths (default_handler (many_paths 1001))) > 1000
   \<and> gc_entered (snd (writer_handler (default_handler (many_paths 1001)) (of_ascii ''hello''))) = 0
   \<and> gc_entered (snd (async_writer_handler (default_handler (many_paths 1001)) (of_ascii ''hello''))) = 0
   \<and> gc_entered (snd (batcher_with_gcmanager (default_handler (many_paths 1001))
         (file_paths (default_handler (many_paths 1001))) (- 1))) = 1"
proof -
  have l: "length (file_paths (default_handler (many_paths 1001))) = 1001"
    by (simp add: default_handler_def many_paths_def)
  have c: "cpu_count (default_handler (many_paths 1001)) = 4"
    "gc_entered (default_handler (many_paths 1001)) = 0"
    by (simp_all add: default_handler_def)
  have b: "calculate_batch_size 4 1001 (- 1) = 250"
    by (simp add: calculate_batch_size_def)
  have h: "length (file_paths (default_handler (many_paths 1001))) > 1000"
    using l by simp
  note t = writer_handler_never_throttles [OF h, of "of_ascii ''hello''"]
  from t have g1: "gc_entered (snd (writer_handler (default_handler (many_paths 1001)) (of_ascii ''hello'')))
      = gc_entered (default_handler (many_paths 1001))"
    by blast
  from t have g2: "gc_entered (snd (async_writer_handler (default_handler (many_paths 1001)) (of_ascii ''hello'')))
      = gc_entered (default_handler (many_paths 1001))"
    by blast
  from t l c b have g3: "gc_entered (snd (batcher_with_gcmanager (default_handler (many_paths 1001))
         (file_paths (default_handler (many_paths 1001))) (- 1))) = 1"
    by simp
  from h g1 g2 g3 c show ?thesis by simp
qed

subsection \<open>C8: clearing the slot pool twice\<close>

lemma pool_get_put [simp]: "pool_get (pool_put s p f) q = (if q = p then Some f else pool_get s q)"
  by (simp add: pool_get_def pool_put_def update_conv')

lemma pool_get_del [simp]: "pool_get (pool_del s p) q = (if q = p then None else pool_get s q)"
  by (simp add: pool_get_def pool_del_def delete_conv')

lemma pool_get_commit [simp]:
  "pool_get (commit s p f) q =
     (if q = p then Some (f\<lparr>fo_pos := fo_pos f + length (fo_pending f), fo_pending := []\<rparr>)
      else pool_get s q)"
proof -
  have "\<And>s'. pool_get (s'\<lparr>fs := (fs s)(p \<mapsto> c)\<rparr>) q = pool_get s' q" for c
    by (simp add: pool_get_def)
  then show ?thesis by (simp add: commit_def Let_def pool_get_def pool_put_def update_conv')
qed

lemma file_flush_keeps:
  "file_flush s p = (r, s') \<Longrightarrow> pool_get s q \<noteq> None \<Longrightarrow> pool_get s' q \<noteq> None"
  by (auto simp: file_flush_def io_step_def pool_get_def split: option.splits if_splits bool.splits)
    (auto simp: commit_def Let_def pool_put_def update_conv' split: if_splits)

lemma file_close_keeps:
  "file_close s p = (r, s') \<Longrightarrow> pool_get s q \<noteq> None \<Longrightarrow> pool_get s' q \<noteq> None"
  by (auto simp: file_close_def io_step_def pool_get_def split: option.splits if_splits bool.splits)
    (auto simp: commit_def Let_def pool_put_def update_conv' split: if_splits)

lemma flush_close_keeps:
  assumes "pool_get s q \<noteq> None"
  shows "pool_get (snd (and_then (file_flush s p) (\<lambda>_ s1. file_close s1 p))) q \<noteq> None"
proof -
  obtain r1 s1 where f: "file_flush s p = (r1, s1)" by fastforce
  from file_flush_keeps [OF f assms] have k1: "pool_get s1 q \<noteq> None" .
  show ?thesis
  proof (cases r1)
    case (Inl e)
    with f k1 show ?thesis by (simp add: and_then_def)
  next
    case (Inr u)
    obtain r2 s2 where c: "file_close s1 p = (r2, s2)" by fastforce
    from file_close_keeps [OF c k1] f Inr c show ?thesis by (simp add: and_then_def)
  qed
qed

lemma flush_close_frame:
  "io_frame (snd (and_then (file_flush s p) (\<lambda>_ s1. file_close s1 p))) = io_frame s"
proof -
  obtain r s' where e: "and_then (file_flush s p) (\<lambda>_ s1. file_close s1 p) = (r, s')" by fastforce
  then have "io_frame s' = io_frame s"
    by (elim and_then_frame) (auto intro: file_flush_frame file_close_frame)
  with e show ?thesis by simp
qed

text \<open>The loop of \<^verbatim>\<open>clear_sync_pool\<close> over the keys of the pool never meets a missing key.\<close>

lemma close_paths_ok:
  "distinct ks \<Longrightarrow> \<forall>k\<in>set ks. pool_get s k \<noteq> None \<Longrightarrow>
     \<exists>s'. close_paths s ks = (Inr (), s') \<and> io_frame s' = io_frame s"
proof (induction ks arbitrary: s)
  case Nil
  then show ?case by simp
next
  case (Cons p ks)
  then obtain f where f: "pool_get s p = Some f" by auto
  define s1 where "s1 = (if \<not> fo_closed f
                     then snd (and_then (file_flush s p) (\<lambda>_ s1. file_close s1 p))
                     else s)"
  have fr: "io_frame (pool_del s1 p) = io_frame s"
    by (simp add: s1_def flush_close_frame)
  have "\<forall>k\<in>set ks. pool_get s1 k \<noteq> None"
  proof
    fix k assume "k \<in> set ks"
    with Cons.prems(2) have "pool_get s k \<noteq> None" by simp
    from flush_close_keeps [OF this] this show "pool_get s1 k \<noteq> None"
      unfolding s1_def by (cases "fo_closed f") simp_all
  qed
  moreover have "p \<notin> set ks" using Cons.prems(1) by simp
  ultimately have "\<forall>k\<in>set ks. pool_get (pool_del s1 p) k \<noteq> None" by auto
  with Cons.IH [of "pool_del s1 p"] Cons.prems(1)
  obtain s' where "close_paths (pool_del s1 p) ks = (Inr (), s')" "io_frame s' = io_frame (pool_del s1 p)"
    by auto
  with f fr show ?case by (simp add: s1_def Let_def)
qed

lemma pool_keys_present: "\<forall>k\<in>set (pool_keys s). pool_get s k \<noteq> None"
  by (auto simp: pool_keys_def pool_get_def map_of_eq_None_iff)

lemma clear_sync_pool_ok:
  "\<exists>s'. clear_sync_pool s = (Inr (), s') \<and> temp_sync_pool s' = [] \<and> io_frame s' = io_frame s"
proof (cases "temp_sync_pool s = []")
  case True
  then show ?thesis by (simp add: clear_sync_pool_def reraise_def)
next
  case False
  from close_paths_ok [OF _ pool_keys_present, of s]
  obtain s1 where c: "close_paths s (pool_keys s) = (Inr (), s1)" "io_frame s1 = io_frame s"
    by (auto simp: pool_keys_def)
  have "io_frame (s1\<lparr>temp_sync_pool := []\<rparr>) = io_frame s1" by (simp add: io_frame_def)
  with False c show ?thesis by (simp add: clear_sync_pool_def reraise_def and_then_def)
qed

lemma opened_handler_pool:
  "temp_sync_pool opened_handler =
     [(Path ''logs'' ''app.log'', \<lparr>fo_closed = False, fo_append = True, fo_pos = 0, fo_pending = []\<rparr>)]"
  by (simp add: opened_handler_def init_sync_pool_def default_handler_def reraise_def pool_get_def
      create_file_def path_exists_def open_file_def and_then_def writable_def pool_put_def Let_def)

text \<open>
  Claim C8. For every state, \<^verbatim>\<open>clear_sync_pool\<close> returns without an exception and leaves the
  pool empty, and a second call right after it returns without an exception and leaves
  the state as the first call left it.
\<close>

theorem clear_sync_pool_idempotent:
  "fst (clear_sync_pool s) = Inr ()
   \<and> temp_sync_pool (snd (clear_sync_pool s)) = []
   \<and> clear_sync_pool (snd (clear_sync_pool s)) = (Inr (), snd (clear_sync_pool s))"
proof -
  from clear_sync_pool_ok [of s]
  obtain s' where c: "clear_sync_pool s = (Inr (), s')" "temp_sync_pool s' = []" by blast
  then have "clear_sync_pool s' = (Inr (), s')" by (simp add: clear_sync_pool_def reraise_def)
  with c show ?thesis by simp
qed

theorem clear_sync_pool_idempotent_witness:
  "temp_sync_pool opened_handler \<noteq> []
   \<and> fst (clear_sync_pool opened_handler) = Inr ()
   \<and> temp_sync_pool (snd (clear_sync_pool opened_handler)) = []
   \<and> clear_sync_pool (snd (clear_sync_pool opened_handler)) = (Inr (), snd (clear_sync_pool opened_handler))"
  using clear_sync_pool_idempotent [of opened_handler] by (simp add: opened_handler_pool)


subsection \<open>C10: logging without paths\<close>

lemma log_no_paths: "file_paths s = [] \<Longrightarrow> py_strip m \<noteq> [] \<Longrightarrow> log s m = (Inr (), s)"
  by (simp add: log_def reraise_def)

lemma async_log_no_paths: "file_paths s = [] \<Longrightarrow> py_strip m \<noteq> [] \<Longrightarrow> async_log s m = (Inr (), s)"
  by (simp add: async_log_def reraise_def)

lemma shutdown_threadpool_paths [simp]: "file_paths (shutdown_threadpool s) = file_paths s"
  by (simp add: shutdown_threadpool_def)

lemma clear_all_paths: "clear_all s = (Inr (), s') \<Longrightarrow> file_paths s' = []"
  by (auto simp: clear_all_def and_then_def split: prod.splits sum.splits if_splits)

lemma dunder_exit_paths: "dunder_exit s = (Inr (), s') \<Longrightarrow> file_paths s' = []"
proof -
  assume a: "dunder_exit s = (Inr (), s')"
  have "\<And>s1 r s2. clear_sync_pool (s1\<lparr>file_paths := []\<rparr>) = (r, s2) \<Longrightarrow> file_paths s2 = []"
  proof -
    fix s1 r s2 assume c: "clear_sync_pool (s1\<lparr>file_paths := []\<rparr>) = (r, s2)"
    from clear_sync_pool_ok [of "s1\<lparr>file_paths := []\<rparr>"] c
    have "io_frame s2 = io_frame (s1\<lparr>file_paths := []\<rparr>)" by auto
    from frame_paths [OF this] show "file_paths s2 = []" by simp
  qed
  with a show ?thesis
    by (auto simp: dunder_exit_def and_then_def split: prod.splits sum.splits if_splits)
qed

text \<open>
  Claim C10. For a message that is not blank, \<^verbatim>\<open>log\<close> and \<^verbatim>\<open>async_log\<close> on a handler whose
  path list is empty return normally and leave the whole state (handler and file system)
  as it was; and the path list is empty after a \<^verbatim>\<open>clear_all\<close> or an \<^verbatim>\<open>__exit__\<close> that
  returned.
\<close>

theorem log_without_paths_is_noop:
  assumes "py_strip m \<noteq> []"
  shows "(file_paths s = [] \<longrightarrow> log s m = (Inr (), s) \<and> async_log s m = (Inr (), s))
    \<and> (clear_all s0 = (Inr (), s) \<or> dunder_exit s0 = (Inr (), s) \<longrightarrow> file_paths s = [])"
  using assms by (auto simp: log_no_paths async_log_no_paths dest: clear_all_paths dunder_exit_paths)
theorem log_without_paths_is_noop_witness:
  "py_strip (of_ascii ''hello'') \<noteq> []
   \<and> clear_all (default_handler [Path ''logs'' ''app.log''])
       = (Inr (), (default_handler [])\<lparr>threadpool_shutdown := True\<rparr>)
   \<and> file_paths ((default_handler [])\<lparr>threadpool_shutdown := True\<rparr>) = []
   \<and> log ((default_handler [])\<lparr>threadpool_shutdown := True\<rparr>) (of_ascii ''hello'')
       = (Inr (), (default_handler [])\<lparr>threadpool_shutdown := True\<rparr>)
   \<and> async_log ((default_handler [])\<lparr>threadpool_shutdown := True\<rparr>) (of_ascii ''hello'')
       = (Inr (), (default_handler [])\<lparr>threadpool_shutdown := True\<rparr>)"
proof -
  have p: "py_strip (of_ascii ''hello'') \<noteq> []"
    by (simp add: py_strip_def of_ascii_def is_space_def)
  have c: "clear_all (default_handler [Path ''logs'' ''app.log''])
       = (Inr (), (default_handler [])\<lparr>threadpool_shutdown := True\<rparr>)"
    by (simp add: clear_all_def default_handler_def buffer_force_flush_def writer_force_flush_def
        clear_sync_pool_def reraise_def and_then_def shutdown_threadpool_def)
  from log_without_paths_is_noop [OF p, of "(default_handler [])\<lparr>threadpool_shutdown := True\<rparr>"
      "default_handler [Path ''logs'' ''app.log'']"] c p
  show ?thesis by simp
qed

subsection \<open>C4: retry and backoff\<close>



lemma opened_handler_eq:
  "opened_handler =
     (default_handler [app_log])
       \<lparr>temp_sync_pool := [(app_log, \<lparr>fo_closed = False, fo_append = True, fo_pos = 0, fo_pending = []\<rparr>)],
        fs := [app_log \<mapsto> []]\<rparr>"
  by (simp add: opened_handler_def app_log_def init_sync_pool_def default_handler_def reraise_def
      pool_get_def create_file_def path_exists_def open_file_def and_then_def writable_def
      pool_put_def Let_def)


lemma hello_not_blank: "py_strip (of_ascii ''hello'') = of_ascii ''hello''"
  by (simp add: py_strip_def of_ascii_def is_space_def)

lemma utf8_len_Nil: "utf8_len [] = 0"
  by (simp add: utf8_len_def)

lemma hello_nonempty: "of_ascii ''hello'' \<noteq> []"
  by (simp add: of_ascii_def)

lemma hello_len: "utf8_len (of_ascii ''hello'') = 5"
  by (simp add: utf8_len_def utf8_width_def of_ascii_def)


subsection \<open>C7: teardown\<close>



lemma io_frame_buffer_update:
  assumes "io_frame s' = io_frame s"
  shows "io_frame (s'\<lparr>buffer := b\<rparr>) = io_frame (s\<lparr>buffer := b\<rparr>)"
proof -
  have c: "\<And>x. io_frame (x\<lparr>buffer := b\<rparr>) = (io_frame x)\<lparr>buffer := b\<rparr>"
    by (simp add: io_frame_def)
  show ?thesis unfolding c assms ..
qed





lemma shutdown_threadpool_fields [simp]:
  "threadpool_shutdown (shutdown_threadpool s)" "temp_sync_pool (shutdown_threadpool s) = temp_sync_pool s"
  "get_buffer_size (shutdown_threadpool s) = get_buffer_size s"
  by (simp_all add: shutdown_threadpool_def get_buffer_size_def)

lemma get_buffer_size_paths [simp]: "get_buffer_size (s\<lparr>file_paths := x\<rparr>) = get_buffer_size s"
  by (simp add: get_buffer_size_def)









subsection \<open>C6: writes after a shutdown of the worker pool\<close>

lemma calculate_batch_size_pos: "n \<ge> 1 \<Longrightarrow> calculate_batch_size cpu n (- 1) \<ge> 1"
  by (simp add: calculate_batch_size_def Let_def le_max_iff_disj)

lemma chop_nonempty: "n \<ge> 1 \<Longrightarrow> xs \<noteq> [] \<Longrightarrow> chop n xs \<noteq> []"
  by (subst chop.simps) simp

lemma batcher_nonempty:
  assumes "data \<noteq> []"
  shows "\<exists>bs. batcher cpu data (- 1) = Inr bs \<and> bs \<noteq> []"
proof -
  from assms have l: "length data \<ge> 1" by (cases data) simp_all
  let ?bs = "calculate_batch_size cpu (length data) (- 1)"
  from calculate_batch_size_pos [OF l] have p: "?bs \<ge> 1" .
  show ?thesis
  proof (cases "?bs \<ge> length data")
    case True
    with assms show ?thesis by (simp add: batcher_def Let_def)
  next
    case False
    with assms chop_nonempty [OF p assms] show ?thesis by (simp add: batcher_def Let_def)
  qed
qed

lemma writer_handler_shutdown:
  assumes "threadpool_shutdown s" "length (file_paths s) > 50"
  shows "writer_handler s m = (Inl RuntimeError_shutdown, s)"
proof -
  from assms(2) have "file_paths s \<noteq> []" by auto
  from batcher_nonempty [OF this, of "cpu_count s"] assms show ?thesis
    by (auto simp: writer_handler_def submit_batches_def)
qed

lemma async_writer_handler_shutdown:
  assumes "threadpool_shutdown s" "file_paths s \<noteq> []"
  shows "async_writer_handler s m = (Inl RuntimeError_shutdown, s)"
proof (cases "length (file_paths s) > 50")
  case True
  from batcher_nonempty [OF assms(2), of "cpu_count s"]
  obtain b bs where "batcher (cpu_count s) (file_paths s) (- 1) = Inr (b # bs)"
    by (metis list.exhaust)
  with True assms(1) show ?thesis
    by (simp add: async_writer_handler_def run_in_executor_def and_then_def)
next
  case False
  with assms(1) show ?thesis
    by (simp add: async_writer_handler_def async_writer_def run_in_executor_def)
qed

lemma shutdown_blocks:
  fixes pool_init :: "state \<Rightarrow> unit res"
  assumes sh: "threadpool_shutdown s" and d: "delivers s m" and v: "py_strip m \<noteq> []" "file_paths s \<noteq> []"
    and pool: "pool_init s = (r1, s1)" "opened_only s s1"
    and handler: "\<And>s2 x. threadpool_shutdown s2 \<Longrightarrow> file_paths s2 = file_paths s
        \<Longrightarrow> handler s2 x = (Inl RuntimeError_shutdown, s2)"
  shows "\<exists>e s'. reraise E
       (and_then (pool_init s)
            (\<lambda>_ s1.
               if max_buffer_size s1 > 0 then
                 and_then (write_to_buffer s1 m)
                   (\<lambda>buffer_message s2.
                      case buffer_message of
                        None \<Rightarrow> (Inr (), s2)
                      | Some m \<Rightarrow> if m \<noteq> [] then handler s2 m else (Inr (), s2))
               else handler s1 m)) = (Inl (E e), s') \<and> io_ops s' = io_ops s"
proof -
  let ?K = "\<lambda>(_::unit) s1.
               if max_buffer_size s1 > 0 then
                 and_then (write_to_buffer s1 m)
                   (\<lambda>buffer_message s2.
                      case buffer_message of
                        None \<Rightarrow> (Inr (), s2)
                      | Some m \<Rightarrow> if m \<noteq> [] then handler s2 m else (Inr (), s2))
               else handler s1 m"
  from pool(2) have sf: "same_frame s s1" and io: "io_ops s1 = io_ops s"
    by (simp_all add: opened_only_def)
  note f = same_frame_fields [OF sf]
  have sh1: "threadpool_shutdown s1" using sh f(11) by simp
  have "\<exists>e s'. reraise E (and_then (pool_init s) ?K) = (Inl (E e), s') \<and> io_ops s' = io_ops s"
  proof (cases r1)
    case (Inl e)
    with pool(1) have "reraise E (and_then (pool_init s) ?K) = (Inl (E e), s1)"
      by (simp add: reraise_def and_then_def)
    with io show ?thesis by blast
  next
    case (Inr u)
    show ?thesis
    proof (cases "max_buffer_size s = 0")
      case True
      then have m1: "max_buffer_size s1 = 0" using f(8) by simp
      have h: "handler s1 m = (Inl RuntimeError_shutdown, s1)"
        using handler [OF sh1 f(1)] .
      from Inr pool(1) m1 h
      have "reraise E (and_then (pool_init s) ?K) = (Inl (E RuntimeError_shutdown), s1)"
        by (simp add: reraise_def and_then_def)
      with io show ?thesis by blast
    next
      case False
      then have m1: "max_buffer_size s1 > 0" using f(8) by simp
      from False d obtain b where b: "buffer s = Some b"
        "get_buffer_size s + utf8_len m > max_buffer_size s" "py_strip b \<noteq> []"
        by (auto simp: delivers_def)
      then have "length b + utf8_len m > max_buffer_size s1" "buffer s1 = Some b"
        using f(8,15) by (simp_all add: get_buffer_size_def)
      from write_to_buffer_drain [OF this(2,1)]
      have w: "write_to_buffer s1 m = (Inr (Some (py_strip b)), s1\<lparr>buffer := Some []\<rparr>)" .
      let ?s2 = "s1\<lparr>buffer := Some []\<rparr>"
      have "threadpool_shutdown ?s2" "file_paths ?s2 = file_paths s"
        using sh1 f(1) by simp_all
      from handler [OF this]
      have h: "handler ?s2 (py_strip b) = (Inl RuntimeError_shutdown, ?s2)" .
      from Inr pool(1) m1 w h b(3)
      have "reraise E (and_then (pool_init s) ?K) = (Inl (E RuntimeError_shutdown), ?s2)"
        by (simp add: reraise_def and_then_def)
      moreover have "io_ops ?s2 = io_ops s" using io by simp
      ultimately show ?thesis by blast
    qed
  qed
  then show ?thesis by simp
qed

lemma hello_length: "length (of_ascii ''hello'') = 5"
  by (simp add: of_ascii_def)

text \<open>
  Claim C6, as stated, has every write after \<^verbatim>\<open>force_shutdown\<close> fail, for every path count.
  For at most 50 paths \<^verbatim>\<open>_writer_handler\<close> writes in a loop of its own and never submits to
  the worker pool: after \<^verbatim>\<open>force_shutdown\<close>, \<^verbatim>\<open>log\<close> on an unbuffered handler with one path
  returns normally and the line is in the file.
\<close>

theorem direct_write_after_shutdown_counterexample:
  "force_shutdown unbuffered_handler = (Inr (), unbuffered_handler\<lparr>threadpool_shutdown := True\<rparr>)
   \<and> file_paths (unbuffered_handler\<lparr>threadpool_shutdown := True\<rparr>) = [app_log]
   \<and> delivers (unbuffered_handler\<lparr>threadpool_shutdown := True\<rparr>) (of_ascii ''hello'')
   \<and> fst (log (unbuffered_handler\<lparr>threadpool_shutdown := True\<rparr>) (of_ascii ''hello'')) = Inr ()
   \<and> fs (snd (log (unbuffered_handler\<lparr>threadpool_shutdown := True\<rparr>) (of_ascii ''hello''))) app_log
        = Some (of_ascii ''hello'' @ [10])"
proof -
  have a: "force_shutdown unbuffered_handler = (Inr (), unbuffered_handler\<lparr>threadpool_shutdown := True\<rparr>)"
    by (simp add: force_shutdown_def unbuffered_handler_def opened_handler_eq default_handler_def)
  have b: "file_paths (unbuffered_handler\<lparr>threadpool_shutdown := True\<rparr>) = [app_log]"
    "delivers (unbuffered_handler\<lparr>threadpool_shutdown := True\<rparr>) (of_ascii ''hello'')"
    by (simp_all add: unbuffered_handler_def opened_handler_eq default_handler_def delivers_def)
  have c: "fst (log (unbuffered_handler\<lparr>threadpool_shutdown := True\<rparr>) (of_ascii ''hello'')) = Inr ()"
    "fs (snd (log (unbuffered_handler\<lparr>threadpool_shutdown := True\<rparr>) (of_ascii ''hello''))) app_log
        = Some (of_ascii ''hello'' @ [10])"
    by (simp_all add: unbuffered_handler_def opened_handler_eq default_handler_def log_def hello_not_blank
        hello_nonempty ensure_sync_pool_def writer_handler_def and_then_def
        reraise_def write_to_file_def check_file_size_def utf8_len_Nil hello_len pool_get_def
        numeral_2_eq_2 write_attempt_def file_write_def file_flush_def io_step_def
        pool_put_def commit_def Let_def)
  from a b c show ?thesis by simp
qed

text \<open>
  Claim C6, amended. Let the worker pool be shut down, the path list not be empty, and the
  call deliver a message to the writer (the handler is unbuffered, or the offer drains a
  buffer whose content is not blank). Then \<^verbatim>\<open>async_log\<close> raises
  \<^verbatim>\<open>FileHandlerAsyncWriteError\<close> for every path count, and \<^verbatim>\<open>log\<close> raises
  \<^verbatim>\<open>FileHandlerWriteError\<close> for more than 50 paths, both before any operation on an open
  file; for at most 50 paths the synchronous writer is the direct loop over the paths, which
  does not use the worker pool.
\<close>

theorem shutdown_stops_pool_writes:
  assumes "threadpool_shutdown s" and "file_paths s \<noteq> []" and "py_strip m \<noteq> []"
    and "delivers s m"
  shows "(\<exists>e s'. async_log s m = (Inl (FileHandlerAsyncWriteError e), s') \<and> io_ops s' = io_ops s)
    \<and> (length (file_paths s) > 50 \<longrightarrow>
          (\<exists>e s'. log s m = (Inl (FileHandlerWriteError e), s') \<and> io_ops s' = io_ops s))
    \<and> (length (file_paths s) \<le> 50 \<longrightarrow> writer_handler s m = log_batch s m (file_paths s))"
proof (intro conjI impI)
  obtain r1 s1 where i: "init_sync_pool s = (r1, s1)" by fastforce
  have h: "\<And>s2 x. threadpool_shutdown s2 \<Longrightarrow> file_paths s2 = file_paths s
      \<Longrightarrow> async_writer_handler s2 x = (Inl RuntimeError_shutdown, s2)"
    using assms(2) by (simp add: async_writer_handler_shutdown)
  have eq: "async_log s m = reraise FileHandlerAsyncWriteError
       (and_then (init_sync_pool s)
            (\<lambda>_ s1.
               if max_buffer_size s1 > 0 then
                 and_then (write_to_buffer s1 m)
                   (\<lambda>buffer_message s2.
                      case buffer_message of
                        None \<Rightarrow> (Inr (), s2)
                      | Some m \<Rightarrow> if m \<noteq> [] then async_writer_handler s2 m else (Inr (), s2))
               else async_writer_handler s1 m))"
    using assms(2,3) by (simp add: async_log_def)
  show "\<exists>e s'. async_log s m = (Inl (FileHandlerAsyncWriteError e), s') \<and> io_ops s' = io_ops s"
    unfolding eq
    by (rule shutdown_blocks [where pool_init = init_sync_pool and handler = async_writer_handler
          and E = FileHandlerAsyncWriteError, OF assms(1,4,3,2) i init_sync_pool_opened [OF i] h])
next
  assume l: "length (file_paths s) > 50"
  obtain r1 s1 where i: "ensure_sync_pool s = (r1, s1)" by fastforce
  have h: "\<And>s2 x. threadpool_shutdown s2 \<Longrightarrow> file_paths s2 = file_paths s
      \<Longrightarrow> writer_handler s2 x = (Inl RuntimeError_shutdown, s2)"
    using l by (simp add: writer_handler_shutdown)
  have eq: "log s m = reraise FileHandlerWriteError
       (and_then (ensure_sync_pool s)
            (\<lambda>_ s1.
               if max_buffer_size s1 > 0 then
                 and_then (write_to_buffer s1 m)
                   (\<lambda>buffer_message s2.
                      case buffer_message of
                        None \<Rightarrow> (Inr (), s2)
                      | Some m \<Rightarrow> if m \<noteq> [] then writer_handler s2 m else (Inr (), s2))
               else writer_handler s1 m))"
    using assms(2,3) by (simp add: log_def)
  show "\<exists>e s'. log s m = (Inl (FileHandlerWriteError e), s') \<and> io_ops s' = io_ops s"
    unfolding eq
    by (rule shutdown_blocks [where pool_init = ensure_sync_pool and handler = writer_handler
          and E = FileHandlerWriteError, OF assms(1,4,3,2) i ensure_sync_pool_opened [OF i] h])
next
  assume "length (file_paths s) \<le> 50"
  then show "writer_handler s m = log_batch s m (file_paths s)"
    by (simp add: writer_handler_def)
qed


theorem shutdown_stops_pool_writes_witness:
  "threadpool_shutdown stopped_handler
   \<and> file_paths stopped_handler \<noteq> []
   \<and> py_strip (of_ascii ''hello'') \<noteq> []
   \<and> delivers stopped_handler (of_ascii ''hello'')
   \<and> length (file_paths stopped_handler) > 50
   \<and> (\<exists>e s'. async_log stopped_handler (of_ascii ''hello'') = (Inl (FileHandlerAsyncWriteError e), s')
              \<and> io_ops s' = io_ops stopped_handler)
   \<and> (\<exists>e s'. log stopped_handler (of_ascii ''hello'') = (Inl (FileHandlerWriteError e), s')
              \<and> io_ops s' = io_ops stopped_handler)"
proof -
  have h: "threadpool_shutdown stopped_handler" "file_paths stopped_handler \<noteq> []"
    "py_strip (of_ascii ''hello'') \<noteq> []" "delivers stopped_handler (of_ascii ''hello'')"
    "length (file_paths stopped_handler) > 50"
    by (simp_all add: stopped_handler_def default_handler_def many_paths_def delivers_def
        hello_not_blank hello_nonempty)
  from shutdown_stops_pool_writes [OF h(1,2,3,4)] h show ?thesis by simp
qed

subsection \<open>C3: partial configuration\<close>

lemma and_then_Inr:
  assumes "and_then r k = (Inr y, s')"
  obtains x s1 where "r = (Inr x, s1)" "k x s1 = (Inr y, s')"
  using assms by (cases r) (auto simp: and_then_def split: sum.splits)

lemma and_then'_Inr:
  assumes "and_then' f k s = (Inr y, s')"
  obtains x s1 where "f s = (Inr x, s1)" "k x s1 = (Inr y, s')"
  using assms unfolding and_then'_def by (rule and_then_Inr)

lemma reraise_Inr: "reraise E r = (Inr y, s') \<Longrightarrow> r = (Inr y, s')"
  by (cases r) (auto simp: reraise_def split: sum.splits)

lemma set_file_paths_ok:
  "apply_setting set_file_paths v s = (Inr u, s') \<Longrightarrow> s' = s\<lparr>file_paths := new_value (file_paths s) v\<rparr>"
  by (cases v) (auto simp: apply_setting_def set_file_paths_def reraise_def new_value_def split: if_splits)

lemma set_write_mode_ok:
  "apply_setting set_write_mode v s = (Inr u, s') \<Longrightarrow> s' = s\<lparr>write_mode := new_value (write_mode s) v\<rparr>"
  by (cases v) (auto simp: apply_setting_def set_write_mode_def new_value_def)

lemma set_retry_limit_ok:
  "apply_setting set_retry_limit v s = (Inr u, s') \<Longrightarrow>
     s' = s\<lparr>retry_limit := new_value (retry_limit s) (map_option nat v)\<rparr>"
  by (cases v) (auto simp: apply_setting_def set_retry_limit_def reraise_def new_value_def split: if_splits)

lemma set_retry_delay_ok:
  "apply_setting set_retry_delay v s = (Inr u, s') \<Longrightarrow> s' = s\<lparr>retry_delay := new_value (retry_delay s) v\<rparr>"
  by (cases v) (auto simp: apply_setting_def set_retry_delay_def reraise_def new_value_def split: if_splits)

lemma set_backoff_factor_ok:
  "apply_setting set_backoff_factor v s = (Inr u, s') \<Longrightarrow>
     s' = s\<lparr>backoff_factor := new_value (backoff_factor s) v\<rparr>"
  by (cases v) (auto simp: apply_setting_def set_backoff_factor_def reraise_def new_value_def split: if_splits)

lemma set_max_file_size_ok:
  "apply_setting set_max_file_size v s = (Inr u, s') \<Longrightarrow>
     s' = s\<lparr>max_file_size := new_value (max_file_size s) (map_option nat v)\<rparr>"
  by (cases v) (auto simp: apply_setting_def set_max_file_size_def reraise_def new_value_def split: if_splits)

lemma set_max_rotation_ok:
  "apply_setting set_max_rotation v s = (Inr u, s') \<Longrightarrow>
     s' = s\<lparr>max_rotation := new_value (max_rotation s) (map_option nat v)\<rparr>"
  by (cases v) (auto simp: apply_setting_def set_max_rotation_def reraise_def new_value_def split: if_splits)

lemma set_max_buffer_size_ok:
  "apply_setting set_max_buffer_size v s = (Inr u, s') \<Longrightarrow>
     s' = s\<lparr>max_buffer_size := new_value (max_buffer_size s) (map_option nat v)\<rparr>"
  by (cases v) (auto simp: apply_setting_def set_max_buffer_size_def reraise_def new_value_def split: if_splits)

lemma set_use_write_flush_ok:
  "apply_setting set_use_write_flush v s = (Inr u, s') \<Longrightarrow>
     s' = s\<lparr>use_write_flush := new_value (use_write_flush s) v\<rparr>"
  by (cases v) (auto simp: apply_setting_def set_use_write_flush_def new_value_def)

lemma set_logger_ok:
  "apply_setting set_logger v s = (Inr u, s') \<Longrightarrow>
     s' = s\<lparr>logger := (case v of None \<Rightarrow> logger s | Some l \<Rightarrow> Some l)\<rparr>"
  by (cases v) (auto simp: apply_setting_def set_logger_def)

lemma config_ok:
  assumes "config s a = (Inr (), s')"
  shows "s' = s\<lparr>file_paths := new_value (file_paths s) (bind_arg [] (arg_file_paths a)),
       write_mode := new_value (write_mode s) (bind_arg APPEND (arg_write_mode a)),
       retry_limit := new_value (retry_limit s) (map_option nat (bind_arg 3 (arg_retry_limit a))),
       retry_delay := new_value (retry_delay s) (bind_arg 0.5 (arg_retry_delay a)),
       backoff_factor := new_value (backoff_factor s) (bind_arg 0.2 (arg_backoff_factor a)),
       max_file_size := new_value (max_file_size s)
         (map_option nat (bind_arg (10 * 1024 * 1024) (arg_max_file_size a))),
       max_rotation := new_value (max_rotation s) (map_option nat (bind_arg 5 (arg_max_rotation a))),
       max_buffer_size := new_value (max_buffer_size s)
         (map_option nat (bind_arg (1024 * 1024) (arg_max_buffer_size a))),
       use_write_flush := new_value (use_write_flush s) (bind_arg True (arg_use_write_flush a)),
       logger := (case arg_logger a of Given l \<Rightarrow> Some l | _ \<Rightarrow> logger s)\<rparr>"
proof -
  from assms have
    "reraise FileHandlerConfigError
          (and_then (apply_setting set_file_paths (bind_arg [] (arg_file_paths a)) s)
          (\<lambda>_. and_then' (apply_setting set_write_mode (bind_arg APPEND (arg_write_mode a)))
          (\<lambda>_. and_then' (apply_setting set_retry_limit (bind_arg 3 (arg_retry_limit a)))
          (\<lambda>_. and_then' (apply_setting set_retry_delay (bind_arg 0.5 (arg_retry_delay a)))
          (\<lambda>_. and_then' (apply_setting set_backoff_factor (bind_arg 0.2 (arg_backoff_factor a)))
          (\<lambda>_. and_then' (apply_setting set_max_file_size (bind_arg (10 * 1024 * 1024) (arg_max_file_size a)))
          (\<lambda>_. and_then' (apply_setting set_max_rotation (bind_arg 5 (arg_max_rotation a)))
          (\<lambda>_. and_then' (apply_setting set_max_buffer_size (bind_arg (1024 * 1024) (arg_max_buffer_size a)))
          (\<lambda>_. and_then' (apply_setting set_use_write_flush (bind_arg True (arg_use_write_flush a)))
          (\<lambda>_. apply_setting set_logger (case arg_logger a of Given l \<Rightarrow> Some l | _ \<Rightarrow> None))))))))))) = (Inr (), s')"
    by (cases "arg_file_paths a") (simp_all add: config_def)
  from reraise_Inr [OF this] obtain s1 s2 s3 s4 s5 s6 s7 s8 s9 where
    "apply_setting set_file_paths (bind_arg [] (arg_file_paths a)) s = (Inr (), s1)"
    "apply_setting set_write_mode (bind_arg APPEND (arg_write_mode a)) s1 = (Inr (), s2)"
    "apply_setting set_retry_limit (bind_arg 3 (arg_retry_limit a)) s2 = (Inr (), s3)"
    "apply_setting set_retry_delay (bind_arg 0.5 (arg_retry_delay a)) s3 = (Inr (), s4)"
    "apply_setting set_backoff_factor (bind_arg 0.2 (arg_backoff_factor a)) s4 = (Inr (), s5)"
    "apply_setting set_max_file_size (bind_arg (10 * 1024 * 1024) (arg_max_file_size a)) s5 = (Inr (), s6)"
    "apply_setting set_max_rotation (bind_arg 5 (arg_max_rotation a)) s6 = (Inr (), s7)"
    "apply_setting set_max_buffer_size (bind_arg (1024 * 1024) (arg_max_buffer_size a)) s7 = (Inr (), s8)"
    "apply_setting set_use_write_flush (bind_arg True (arg_use_write_flush a)) s8 = (Inr (), s9)"
    "apply_setting set_logger (case arg_logger a of Given l \<Rightarrow> Some l | _ \<Rightarrow> None) s9 = (Inr (), s')"
    by (elim and_then_Inr and_then'_Inr) simp
  then have
    "s1 = s\<lparr>file_paths := new_value (file_paths s) (bind_arg [] (arg_file_paths a))\<rparr>"
    "s2 = s1\<lparr>write_mode := new_value (write_mode s1) (bind_arg APPEND (arg_write_mode a))\<rparr>"
    "s3 = s2\<lparr>retry_limit := new_value (retry_limit s2) (map_option nat (bind_arg 3 (arg_retry_limit a)))\<rparr>"
    "s4 = s3\<lparr>retry_delay := new_value (retry_delay s3) (bind_arg 0.5 (arg_retry_delay a))\<rparr>"
    "s5 = s4\<lparr>backoff_factor := new_value (backoff_factor s4) (bind_arg 0.2 (arg_backoff_factor a))\<rparr>"
    "s6 = s5\<lparr>max_file_size := new_value (max_file_size s5)
         (map_option nat (bind_arg (10 * 1024 * 1024) (arg_max_file_size a)))\<rparr>"
    "s7 = s6\<lparr>max_rotation := new_value (max_rotation s6) (map_option nat (bind_arg 5 (arg_max_rotation a)))\<rparr>"
    "s8 = s7\<lparr>max_buffer_size := new_value (max_buffer_size s7)
         (map_option nat (bind_arg (1024 * 1024) (arg_max_buffer_size a)))\<rparr>"
    "s9 = s8\<lparr>use_write_flush := new_value (use_write_flush s8) (bind_arg True (arg_use_write_flush a))\<rparr>"
    "s' = s9\<lparr>logger := (case (case arg_logger a of Given l \<Rightarrow> Some l | _ \<Rightarrow> None) of
                         None \<Rightarrow> logger s9 | Some l \<Rightarrow> Some l)\<rparr>"
    by (simp_all only: set_file_paths_ok set_write_mode_ok set_retry_limit_ok set_retry_delay_ok
        set_backoff_factor_ok set_max_file_size_ok set_max_rotation_ok set_max_buffer_size_ok
        set_use_write_flush_ok set_logger_ok)
  then show ?thesis by (cases "arg_logger a") simp_all
qed


lemmas config_eval = config_def apply_setting_def bind_arg_def and_then_def and_then'_def reraise_def
  set_file_paths_def set_write_mode_def set_retry_limit_def set_retry_delay_def
  set_backoff_factor_def set_max_file_size_def set_max_rotation_def set_max_buffer_size_def
  set_use_write_flush_def set_logger_def

text \<open>
  Claim C3, as stated, has every field that a call of \<^verbatim>\<open>config\<close> does not supply keep its
  value. A parameter that is left out is bound to the default of the signature, which is
  not \<^verbatim>\<open>None\<close>, and the field is set to it: on the handler of the test fixture
  (\<^verbatim>\<open>retry_limit=0\<close>, \<^verbatim>\<open>retry_delay=0.0\<close>) a call that passes the paths alone leaves
  \<^verbatim>\<open>retry_limit\<close> at 3 and \<^verbatim>\<open>retry_delay\<close> at 0.5.
\<close>

theorem config_resets_omitted_fields_counterexample:
  "arg_retry_limit only_paths = Omitted
   \<and> retry_limit fixture_handler = 0
   \<and> fst (config fixture_handler only_paths) = Inr ()
   \<and> retry_limit (snd (config fixture_handler only_paths)) = 3
   \<and> retry_delay fixture_handler = 0
   \<and> retry_delay (snd (config fixture_handler only_paths)) = 0.5"
  by (simp add: only_paths_def fixture_handler_def default_handler_def config_eval)

text \<open>
  Claim C3, amended. A call of \<^verbatim>\<open>config\<close> (or \<^verbatim>\<open>config_dict\<close>) without \<^verbatim>\<open>file_paths\<close> is a
  \<^verbatim>\<open>TypeError\<close> and changes nothing. A call that returns has set exactly the fields whose
  bound argument is not \<^verbatim>\<open>None\<close>: a field passed with a value has it, a field passed as
  \<^verbatim>\<open>None\<close> keeps the value it had, and a field left out has the default of the signature
  (the logger, whose default is \<^verbatim>\<open>None\<close>, is kept); nothing else of the state changes.
\<close>

theorem config_sets_bound_arguments:
  "(arg_file_paths a = Omitted \<longrightarrow> config s a = (Inl TypeError, s))
   \<and> (config s a = (Inr (), s') \<longrightarrow>
        s' = s\<lparr>file_paths := new_value (file_paths s) (bind_arg [] (arg_file_paths a)),
       write_mode := new_value (write_mode s) (bind_arg APPEND (arg_write_mode a)),
       retry_limit := new_value (retry_limit s) (map_option nat (bind_arg 3 (arg_retry_limit a))),
       retry_delay := new_value (retry_delay s) (bind_arg 0.5 (arg_retry_delay a)),
       backoff_factor := new_value (backoff_factor s) (bind_arg 0.2 (arg_backoff_factor a)),
       max_file_size := new_value (max_file_size s)
         (map_option nat (bind_arg (10 * 1024 * 1024) (arg_max_file_size a))),
       max_rotation := new_value (max_rotation s) (map_option nat (bind_arg 5 (arg_max_rotation a))),
       max_buffer_size := new_value (max_buffer_size s)
         (map_option nat (bind_arg (1024 * 1024) (arg_max_buffer_size a))),
       use_write_flush := new_value (use_write_flush s) (bind_arg True (arg_use_write_flush a)),
       logger := (case arg_logger a of Given l \<Rightarrow> Some l | _ \<Rightarrow> logger s)\<rparr>)
   \<and> config_dict s a = config s a"
proof (intro conjI impI)
  show "config s a = (Inl TypeError, s)" if "arg_file_paths a = Omitted"
    using that by (simp add: config_def)
  show "config_dict s a = config s a" by (simp add: config_dict_def)
qed (rule config_ok)

theorem config_sets_bound_arguments_witness:
  "fst (config fixture_handler delay_only) = Inr ()
   \<and> retry_delay (snd (config fixture_handler delay_only)) = 1.5
   \<and> retry_limit (snd (config fixture_handler delay_only)) = retry_limit fixture_handler
   \<and> file_paths (snd (config fixture_handler delay_only)) = file_paths fixture_handler
   \<and> max_rotation (snd (config fixture_handler delay_only)) = max_rotation fixture_handler
   \<and> config fixture_handler (delay_only\<lparr>arg_file_paths := Omitted\<rparr>) = (Inl TypeError, fixture_handler)"
proof -
  have f: "fst (config fixture_handler delay_only) = Inr ()"
    by (simp add: delay_only_def fixture_handler_def default_handler_def config_eval)
  then have c: "config fixture_handler delay_only = (Inr (), snd (config fixture_handler delay_only))"
    by (cases "config fixture_handler delay_only") simp
  note t = config_sets_bound_arguments [of _ fixture_handler]
  from t [of delay_only "snd (config fixture_handler delay_only)"] c
  have "snd (config fixture_handler delay_only) = fixture_handler\<lparr>retry_delay := 1.5\<rparr>"
    by (simp add: delay_only_def new_value_def bind_arg_def)
  moreover from t [of "delay_only\<lparr>arg_file_paths := Omitted\<rparr>"]
  have "config fixture_handler (delay_only\<lparr>arg_file_paths := Omitted\<rparr>) = (Inl TypeError, fixture_handler)"
    by simp
  ultimately show ?thesis using f by simp
qed

end
